theory Spec2Isabelle
  imports Main "HOL-Library.Word"
begin

section \<open>The socket daemon of ctdb/common/sock\_daemon.c\<close>

text \<open>
  The daemon is single threaded: every handler runs to completion on one event loop.
  A handler of the C source becomes a function from the state of the process before the
  handler to the state after it. What the process does to the outside (system calls,
  application callbacks, log lines, objects handed back to the allocator) is appended to
  a trace, in the order the source does it.
\<close>

subsection \<open>Constants of the platform\<close>

definition EINTR :: int where "EINTR = 4"
definition EIO :: int where "EIO = 5"
definition ENOMEM :: int where "ENOMEM = 12"
definition EINVAL :: int where "EINVAL = 22"
definition ESRCH :: int where "ESRCH = 3"

definition SIGHUP :: int where "SIGHUP = 1"
definition SIGINT :: int where "SIGINT = 2"
definition SIGUSR1 :: int where "SIGUSR1 = 10"
definition SIGTERM :: int where "SIGTERM = 15"

subsection \<open>Data model\<close>

text \<open>
  \<^verbatim>\<open>struct sock_socket_funcs\<close> (declared in sock\_daemon.h): four function pointers, each
  possibly NULL. A callback is identified in the trace by the descriptor of the client
  context it is called with; only its return value is modelled.
\<close>

record sock_socket_funcs =
  connect :: "(int \<Rightarrow> bool) option"
  disconnect :: "(int \<Rightarrow> unit) option"
  read_send :: "(int \<Rightarrow> 8 word list \<Rightarrow> bool) option"
  read_recv :: "(int \<Rightarrow> bool \<times> int) option"

text \<open>
  \<^verbatim>\<open>struct sock_daemon_funcs\<close>: the three optional lifecycle callbacks. They take the
  private data only and return nothing: a field is true when the pointer is not NULL.
\<close>

record sock_daemon_funcs =
  startup :: bool
  reconfigure :: bool
  shutdown :: bool

text \<open>
  \<^verbatim>\<open>struct sock_client_context\<close>: the accepted descriptor and the transport
  (\<open>cc_comm\<close> is true while \<^verbatim>\<open>client_ctx->comm\<close> is not NULL).
\<close>

record sock_client_context =
  cc_fd :: int
  cc_comm :: bool

text \<open>
  \<^verbatim>\<open>struct sock_client\<close>: one slot of a listener's registry. \<open>sc_id\<close> stands for the
  address of the record.
\<close>

record sock_client =
  sc_id :: nat
  sc_client_ctx :: "sock_client_context option"

text \<open>
  \<^verbatim>\<open>struct sock_socket_start_state\<close>: the state of a listener's accept loop request.
  \<open>st_accept\<close> is true while an accept sub-request hangs off the state.
\<close>

record sock_socket_start_state =
  st_client_list :: "sock_client list"
  st_accept :: bool

text \<open>\<^verbatim>\<open>struct sock_socket\<close>: \<open>ss_req\<close> is None while \<^verbatim>\<open>sock->req\<close> is NULL.\<close>

record sock_socket =
  ss_sockpath :: string
  ss_funcs :: sock_socket_funcs
  ss_fd :: int
  ss_req :: "sock_socket_start_state option"

text \<open>
  \<^verbatim>\<open>struct sock_daemon_context\<close>. \<open>sd_pid_ctx\<close> holds the path of the PID file while
  \<^verbatim>\<open>sockd->pid_ctx\<close> is not NULL.
\<close>

record sock_daemon_context =
  sd_funcs :: "sock_daemon_funcs option"
  sd_pid_ctx :: "string option"
  sd_socket_list :: "sock_socket list"

text \<open>The state of a tevent request, as \<^verbatim>\<open>tevent_req_is_unix_error\<close> reads it.\<close>

datatype tevent_req_state =
    TEVENT_REQ_IN_PROGRESS
  | TEVENT_REQ_DONE
  | TEVENT_REQ_USER_ERROR int
  | TEVENT_REQ_NO_MEMORY

text \<open>
  What the process does, in order. A log line is recorded by its format string; a
  callback by the descriptor of the client context it is called with; a freed object by
  what identifies it (a client context's transport by the descriptor, a registry slot by
  its address, a listener and the PID file by their paths).
\<close>

datatype action =
    D_ERR string
  | D_NOTICE string
  | Sys_socket int
  | Sys_set_blocking int
  | Sys_unlink string
  | Sys_bind int string
  | Sys_listen int
  | Sys_close int
  | Sys_kill int
  | Accept_send int
  | Comm_setup int
  | Free_comm int
  | Free_client nat
  | Free_sock string
  | Free_pidfile string
  | Cb_connect int
  | Cb_disconnect int
  | Cb_read_send int
  | Cb_read_recv int
  | Cb_startup
  | Cb_reconfigure
  | Cb_shutdown

text \<open>
  The process: the daemon context, the state of the request that
  \<^verbatim>\<open>sock_daemon_run_send\<close> returned (\<^verbatim>\<open>struct sock_daemon_start_state\<close> holds
  \<open>pid_watch\<close>), the descriptors that are open, the next fresh address and the trace.
\<close>

record world =
  sockd :: sock_daemon_context
  run_req :: tevent_req_state
  pid_watch :: int
  open_fds :: "int set"
  next_id :: nat
  trace :: "action list"

definition emit :: "action \<Rightarrow> world \<Rightarrow> world" where
  "emit a w = w\<lparr>trace := trace w @ [a]\<rparr>"

definition sys_close :: "int \<Rightarrow> world \<Rightarrow> world" where
  "sys_close fd w = emit (Sys_close fd) (w\<lparr>open_fds := open_fds w - {fd}\<rparr>)"

definition socket_list :: "world \<Rightarrow> sock_socket list" where
  "socket_list w = sd_socket_list (sockd w)"

definition set_socket_list :: "sock_socket list \<Rightarrow> world \<Rightarrow> world" where
  "set_socket_list l w = w\<lparr>sockd := (sockd w)\<lparr>sd_socket_list := l\<rparr>\<rparr>"

subsection \<open>Setting up a listening socket\<close>

text \<open>
  What the system answers to \<^verbatim>\<open>socket_setup\<close>: the size of \<^verbatim>\<open>sun_path\<close> and the
  results of the four system calls.
\<close>

record socket_env =
  se_sun_path_size :: nat
  se_socket :: int
  se_set_blocking :: int
  se_bind :: int
  se_listen :: int

text \<open>
  \<^verbatim>\<open>socket_setup\<close>, lines 196 to 243. \<^verbatim>\<open>strlcpy\<close> returns the length of the source
  string. The result is the descriptor, or -1.
\<close>

definition socket_setup :: "socket_env \<Rightarrow> string \<Rightarrow> bool \<Rightarrow> world \<Rightarrow> int \<times> world" where
  "socket_setup env sockpath remove_before_use w =
     (if length sockpath \<ge> se_sun_path_size env
      then (-1, emit (D_ERR ''socket path too long: %s'') w)
      else
        let fd = se_socket env in
        if fd = -1
        then (-1, emit (D_ERR ''socket create failed - %s'') w)
        else
          let w1 = emit (Sys_socket fd) (w\<lparr>open_fds := insert fd (open_fds w)\<rparr>);
              w2 = emit (Sys_set_blocking fd) w1 in
          if se_set_blocking env \<noteq> 0
          then (-1, sys_close fd (emit (D_ERR ''socket set nonblocking failed - %s'') w2))
          else
            let w3 = (if remove_before_use then emit (Sys_unlink sockpath) w2 else w2);
                w4 = emit (Sys_bind fd sockpath) w3 in
            if se_bind env \<noteq> 0
            then (-1, sys_close fd (emit (D_ERR ''socket bind failed - %s'') w4))
            else
              let w5 = emit (Sys_listen fd) w4 in
              if se_listen env \<noteq> 0
              then (-1, sys_close fd (emit (D_ERR ''socket listen failed - %s'') w5))
              else (fd, w5))"

text \<open>
  \<^verbatim>\<open>sock_socket_init\<close>, lines 247 to 281. \<open>funcs\<close> is None for a NULL pointer;
  \<open>alloc\<close> tells whether \<^verbatim>\<open>talloc_zero\<close> returned memory. The value is \<open>Inl\<close> of
  the error code, or \<open>Inr\<close> of the listener stored through \<^verbatim>\<open>result\<close> when the
  function returns 0. On a failed \<^verbatim>\<open>socket_setup\<close> the record is freed before its
  destructor is set, so nothing is closed or unlinked.
\<close>

definition sock_socket_init ::
  "socket_env \<Rightarrow> bool \<Rightarrow> string \<Rightarrow> sock_socket_funcs option \<Rightarrow> bool \<Rightarrow> world
     \<Rightarrow> (int + sock_socket) \<times> world" where
  "sock_socket_init env alloc sockpath funcs remove_before_use w =
     (case funcs of
        None \<Rightarrow> (Inl EINVAL, w)
      | Some f \<Rightarrow>
          if read_send f = None \<or> read_recv f = None then (Inl EINVAL, w)
          else if \<not> alloc then (Inl ENOMEM, w)
          else
            let (fd, w1) = socket_setup env sockpath remove_before_use w in
            if fd = -1 then (Inl EIO, w1)
            else (Inr \<lparr>ss_sockpath = sockpath, ss_funcs = f, ss_fd = fd, ss_req = None\<rparr>, w1))"

text \<open>
  \<^verbatim>\<open>sock_daemon_add_unix\<close>, lines 549 to 570: the value is the code returned (0 on
  success). \<^verbatim>\<open>DLIST_ADD\<close> puts the new listener at the head of the list.
\<close>

definition sock_daemon_add_unix ::
  "socket_env \<Rightarrow> bool \<Rightarrow> string \<Rightarrow> sock_socket_funcs option \<Rightarrow> world \<Rightarrow> int \<times> world" where
  "sock_daemon_add_unix env alloc sockpath funcs w =
     (let remove_before_use = (sd_pid_ctx (sockd w) \<noteq> None) in
      case sock_socket_init env alloc sockpath funcs remove_before_use w of
        (Inl ret, w1) \<Rightarrow> (ret, w1)
      | (Inr sock, w1) \<Rightarrow>
          (0, set_socket_list (sock # socket_list w1) (emit (D_NOTICE ''listening on %s'') w1)))"

subsection \<open>A client session\<close>

text \<open>
  Modelled from the spec: talloc and tevent are not under src/. The spec's design notes
  describe a hierarchical allocator whose destructors drive the teardown and requests
  that complete through a callback; the following is what the source relies on.
  \<^item> \<^verbatim>\<open>talloc_free\<close> runs the destructor of the object, then frees its children.
  \<^item> \<^verbatim>\<open>talloc_free\<close> of an object whose destructor is running does nothing.
  \<^item> \<^verbatim>\<open>TALLOC_FREE(p)\<close> frees \<open>p\<close> when it is not NULL and sets it to NULL.
  \<^item> \<^verbatim>\<open>tevent_req_nomem(p, req)\<close> is false when \<open>p\<close> is not NULL; otherwise it
    completes \<open>req\<close> with the out-of-memory state, which calls the callback set on
    \<open>req\<close> at once, and is true.
  \<^item> \<^verbatim>\<open>tevent_req_error(req, e)\<close> does nothing when \<open>e\<close> is 0 and otherwise completes
    \<open>req\<close> with the user error \<open>e\<close>; \<^verbatim>\<open>tevent_req_done\<close> completes it as done.
\<close>

text \<open>
  \<^verbatim>\<open>sock_client_context_destructor\<close> (lines 179 to 190) frees the registry slot and
  \<^verbatim>\<open>sock_socket_start_client_destructor\<close> (lines 390 to 399) frees the client
  context: whichever runs second finds the other's destructor running, and its
  \<^verbatim>\<open>TALLOC_FREE\<close> of the other only clears the pointer. So each destructor has
  two forms: entered first, and entered from the other one (\<open>_nested\<close>).
\<close>

definition sock_client_context_destructor_nested :: "sock_client_context \<Rightarrow> world \<Rightarrow> world" where
  "sock_client_context_destructor_nested cc w =
     (let w1 = (if cc_comm cc then emit (Free_comm (cc_fd cc)) w else w) in
      if cc_fd cc \<noteq> -1 then sys_close (cc_fd cc) w1 else w1)"

definition sock_socket_start_client_destructor ::
  "sock_client \<Rightarrow> sock_client list \<Rightarrow> world \<Rightarrow> sock_client list \<times> world" where
  "sock_socket_start_client_destructor client client_list w =
     (let l = remove1 client client_list;
          w1 = (case sc_client_ctx client of
                  None \<Rightarrow> w
                | Some cc \<Rightarrow> sock_client_context_destructor_nested cc w)
      in (l, w1))"

definition sock_socket_start_client_destructor_nested ::
  "sock_client \<Rightarrow> sock_client list \<Rightarrow> sock_client list" where
  "sock_socket_start_client_destructor_nested client client_list = remove1 client client_list"

definition sock_client_context_destructor ::
  "sock_client \<Rightarrow> sock_client_context \<Rightarrow> sock_client list \<Rightarrow> world \<Rightarrow> sock_client list \<times> world" where
  "sock_client_context_destructor client cc client_list w =
     (let l = sock_socket_start_client_destructor_nested client client_list;
          w1 = emit (Free_client (sc_id client)) w;
          w2 = (if cc_comm cc then emit (Free_comm (cc_fd cc)) w1 else w1)
      in (l, if cc_fd cc \<noteq> -1 then sys_close (cc_fd cc) w2 else w2))"

text \<open>\<^verbatim>\<open>talloc_free(client)\<close> for a slot whose destructor is set.\<close>

definition talloc_free_client ::
  "sock_client \<Rightarrow> sock_client list \<Rightarrow> world \<Rightarrow> sock_client list \<times> world" where
  "talloc_free_client client client_list w =
     (case sock_socket_start_client_destructor client client_list w of
        (l, w1) \<Rightarrow> (l, emit (Free_client (sc_id client)) w1))"

text \<open>
  \<^verbatim>\<open>sock_socket_start_state_destructor\<close>, lines 334 to 344: the loop frees the head of
  the list until the list is empty.
\<close>

function sock_socket_start_state_destructor ::
  "sock_client list \<Rightarrow> world \<Rightarrow> sock_client list \<times> world" where
  "sock_socket_start_state_destructor client_list w =
     (case client_list of
        [] \<Rightarrow> ([], w)
      | client # _ \<Rightarrow>
          (case talloc_free_client client client_list w of
             (l, w1) \<Rightarrow> sock_socket_start_state_destructor l w1))"
  by pat_completeness auto
termination
  by (relation "measure (\<lambda>(l, w). length l)")
     (auto simp: talloc_free_client_def sock_socket_start_client_destructor_def Let_def)

declare sock_socket_start_state_destructor.simps [simp del]

text \<open>Reading and writing the accept loop state of the listener at position \<open>i\<close>.\<close>

definition sock_at :: "nat \<Rightarrow> world \<Rightarrow> sock_socket option" where
  "sock_at i w = (if i < length (socket_list w) then Some (socket_list w ! i) else None)"

definition state_at :: "nat \<Rightarrow> world \<Rightarrow> sock_socket_start_state option" where
  "state_at i w = (case sock_at i w of None \<Rightarrow> None | Some sock \<Rightarrow> ss_req sock)"

definition set_state_at :: "nat \<Rightarrow> sock_socket_start_state option \<Rightarrow> world \<Rightarrow> world" where
  "set_state_at i st w =
     (case sock_at i w of
        None \<Rightarrow> w
      | Some sock \<Rightarrow> set_socket_list ((socket_list w)[i := sock\<lparr>ss_req := st\<rparr>]) w)"

definition set_client_list :: "nat \<Rightarrow> sock_client list \<Rightarrow> world \<Rightarrow> world" where
  "set_client_list i l w =
     (case state_at i w of
        None \<Rightarrow> w
      | Some st \<Rightarrow> set_state_at i (Some (st\<lparr>st_client_list := l\<rparr>)) w)"

definition client_list_at :: "nat \<Rightarrow> world \<Rightarrow> sock_client list" where
  "client_list_at i w = (case state_at i w of None \<Rightarrow> [] | Some st \<Rightarrow> st_client_list st)"

text \<open>
  The session a transport callback is called with: the slot with address \<open>c\<close> in the
  registry of listener \<open>i\<close>, when it holds a client context.
\<close>

definition live_session ::
  "nat \<Rightarrow> nat \<Rightarrow> world \<Rightarrow> (sock_socket \<times> sock_client \<times> sock_client_context) option" where
  "live_session i c w =
     (case sock_at i w of
        None \<Rightarrow> None
      | Some sock \<Rightarrow>
          (case find (\<lambda>x. sc_id x = c) (client_list_at i w) of
             None \<Rightarrow> None
           | Some client \<Rightarrow>
               (case sc_client_ctx client of
                  None \<Rightarrow> None
                | Some cc \<Rightarrow> Some (sock, client, cc))))"

text \<open>\<^verbatim>\<open>talloc_free(client_ctx)\<close> for a client context whose destructor is set.\<close>

definition talloc_free_client_ctx ::
  "nat \<Rightarrow> sock_client \<Rightarrow> sock_client_context \<Rightarrow> world \<Rightarrow> world" where
  "talloc_free_client_ctx i client cc w =
     (case sock_client_context_destructor client cc (client_list_at i w) w of
        (l, w1) \<Rightarrow> set_client_list i l w1)"

text \<open>
  \<^verbatim>\<open>sock_client_read_handler\<close>, lines 133 to 149. The result is None when the source
  calls through a NULL pointer. A handler called for a session that does not exist
  leaves the state as it is.
\<close>

definition sock_client_read_handler :: "8 word list \<Rightarrow> nat \<Rightarrow> nat \<Rightarrow> world \<Rightarrow> world option" where
  "sock_client_read_handler buf i c w =
     (case live_session i c w of
        None \<Rightarrow> Some w
      | Some (sock, client, cc) \<Rightarrow>
          (case read_send (ss_funcs sock) of
             None \<Rightarrow> None
           | Some f \<Rightarrow>
               let w1 = emit (Cb_read_send (cc_fd cc)) w in
               if \<not> f (cc_fd cc) buf then Some (talloc_free_client_ctx i client cc w1)
               else Some w1))"

text \<open>\<^verbatim>\<open>sock_client_read_done\<close>, lines 151 to 164.\<close>

definition sock_client_read_done :: "nat \<Rightarrow> nat \<Rightarrow> world \<Rightarrow> world option" where
  "sock_client_read_done i c w =
     (case live_session i c w of
        None \<Rightarrow> Some w
      | Some (sock, client, cc) \<Rightarrow>
          (case read_recv (ss_funcs sock) of
             None \<Rightarrow> None
           | Some f \<Rightarrow>
               let w1 = emit (Cb_read_recv (cc_fd cc)) w in
               if \<not> fst (f (cc_fd cc))
               then Some (talloc_free_client_ctx i client cc
                            (emit (D_ERR ''client read failed with ret=%d'') w1))
               else Some w1))"

text \<open>\<^verbatim>\<open>sock_client_dead_handler\<close>, lines 166 to 177.\<close>

definition sock_client_dead_handler :: "nat \<Rightarrow> nat \<Rightarrow> world \<Rightarrow> world" where
  "sock_client_dead_handler i c w =
     (case live_session i c w of
        None \<Rightarrow> w
      | Some (sock, client, cc) \<Rightarrow>
          let w1 = (case disconnect (ss_funcs sock) of
                      None \<Rightarrow> w
                    | Some f \<Rightarrow> emit (Cb_disconnect (cc_fd cc)) w)
          in talloc_free_client_ctx i client cc w1)"

text \<open>
  What the system answers while one completed accept is handled: the descriptor that
  \<^verbatim>\<open>accept_recv\<close> returns (-1 when the accept failed), whether \<^verbatim>\<open>accept_send\<close> and the
  two \<^verbatim>\<open>talloc_zero\<close> calls return memory, and the result of \<^verbatim>\<open>comm_setup\<close>.
\<close>

record accept_env =
  ae_client_fd :: int
  ae_accept_send :: bool
  ae_client_alloc :: bool
  ae_ctx_alloc :: bool
  ae_comm_setup :: int

text \<open>
  \<^verbatim>\<open>sock_client_context_init\<close>, lines 87 to 131. \<open>result\<close> is what the out-parameter
  points to before the call; the second component of the value is what it points to
  after. A client context that is freed before its destructor is set frees its transport
  and nothing else.
\<close>

definition sock_client_context_init ::
  "accept_env \<Rightarrow> sock_socket \<Rightarrow> int \<Rightarrow> sock_client_context option \<Rightarrow> world
     \<Rightarrow> int \<times> sock_client_context option \<times> world" where
  "sock_client_context_init ae sock client_fd result w =
     (if \<not> ae_ctx_alloc ae then (ENOMEM, result, w)
      else if ae_comm_setup ae \<noteq> 0 then (ae_comm_setup ae, result, w)
      else
        let w1 = emit (Comm_setup client_fd) w;
            client_ctx = \<lparr>cc_fd = client_fd, cc_comm = True\<rparr> in
        (case connect (ss_funcs sock) of
           None \<Rightarrow> (0, Some client_ctx, w1)
         | Some f \<Rightarrow>
             let w2 = emit (Cb_connect client_fd) w1 in
             if \<not> f client_fd
             then (0, result, sys_close client_fd (emit (Free_comm client_fd) w2))
             else (0, Some client_ctx, w2)))"

subsection \<open>Shutting down\<close>

text \<open>\<^verbatim>\<open>sock_socket_destructor\<close>, lines 283 to 292.\<close>

definition sock_socket_destructor :: "sock_socket \<Rightarrow> world \<Rightarrow> world" where
  "sock_socket_destructor sock w =
     (let w1 = (if ss_fd sock \<noteq> -1 then sys_close (ss_fd sock) w else w) in
      emit (Sys_unlink (ss_sockpath sock)) w1)"

text \<open>
  \<^verbatim>\<open>TALLOC_FREE(sock->req)\<close>: the destructor of the accept loop state runs, and the
  pending accept goes with the state.
\<close>

definition talloc_free_req :: "sock_socket_start_state option \<Rightarrow> world \<Rightarrow> world" where
  "talloc_free_req req w =
     (case req of
        None \<Rightarrow> w
      | Some st \<Rightarrow> snd (sock_socket_start_state_destructor (st_client_list st) w))"

text \<open>\<^verbatim>\<open>TALLOC_FREE(sock)\<close> for a listener whose destructor is set.\<close>

definition talloc_free_sock :: "sock_socket \<Rightarrow> world \<Rightarrow> world" where
  "talloc_free_sock sock w = emit (Free_sock (ss_sockpath sock)) (sock_socket_destructor sock w)"

text \<open>One turn of the loop of \<^verbatim>\<open>sock_daemon_shutdown\<close>, lines 724 to 728.\<close>

definition shutdown_socket :: "sock_socket \<Rightarrow> sock_socket list \<Rightarrow> world \<Rightarrow> world" where
  "shutdown_socket sock rest w =
     talloc_free_sock sock (talloc_free_req (ss_req sock) (set_socket_list rest w))"

function shutdown_sockets :: "world \<Rightarrow> world" where
  "shutdown_sockets w =
     (case socket_list w of
        [] \<Rightarrow> w
      | sock # rest \<Rightarrow> shutdown_sockets (shutdown_socket sock rest w))"
  by pat_completeness auto

termination
proof (relation "measure (\<lambda>w. length (socket_list w))")
  show "wf (measure (\<lambda>w. length (socket_list w)))"
    by simp
next
  fix w :: world and sock rest
  assume l: "socket_list w = sock # rest"
  have keep: "sockd (snd (sock_socket_start_state_destructor cl v)) = sockd v" for cl v
  proof (induction cl v rule: sock_socket_start_state_destructor.induct)
    case (1 cl v)
    show ?case
    proof (cases cl)
      case Nil
      then show ?thesis
        by (simp add: sock_socket_start_state_destructor.simps [of "[]"])
    next
      case (Cons c cs)
      obtain cl' v' where f: "talloc_free_client c cl v = (cl', v')"
        by force
      have "sockd v' = sockd v"
        using f
        by (auto simp: talloc_free_client_def sock_socket_start_client_destructor_def
            sock_client_context_destructor_nested_def sys_close_def emit_def Let_def
            split: option.splits if_splits)
      moreover have "sockd (snd (sock_socket_start_state_destructor cl' v')) = sockd v'"
        using "1" Cons f by simp
      ultimately show ?thesis
        using Cons f by (simp add: sock_socket_start_state_destructor.simps [of "c # cs" v])
    qed
  qed
  have "socket_list (shutdown_socket sock rest w) = rest"
    by (simp add: shutdown_socket_def talloc_free_sock_def sock_socket_destructor_def
        talloc_free_req_def socket_list_def set_socket_list_def keep sys_close_def emit_def
        Let_def split: option.splits)
  with l show "(shutdown_socket sock rest w, w) \<in> measure (\<lambda>w. length (socket_list w))"
    by simp
qed

declare shutdown_sockets.simps [simp del]

text \<open>\<^verbatim>\<open>sock_daemon_shutdown\<close>, lines 717 to 735.\<close>

definition sock_daemon_shutdown :: "world \<Rightarrow> world" where
  "sock_daemon_shutdown w =
     (let w1 = shutdown_sockets (emit (D_NOTICE ''Shutting down'') w);
          w2 = (case sd_funcs (sockd w1) of
                  None \<Rightarrow> w1
                | Some f \<Rightarrow> if shutdown f then emit Cb_shutdown w1 else w1)
      in case sd_pid_ctx (sockd w2) of
           None \<Rightarrow> w2
         | Some pidfile \<Rightarrow> emit (Free_pidfile pidfile) (w2\<lparr>sockd := (sockd w2)\<lparr>sd_pid_ctx := None\<rparr>\<rparr>))"

subsection \<open>The run request\<close>

text \<open>
  Modelled from the spec: \<^verbatim>\<open>tevent_req_error\<close> and \<^verbatim>\<open>tevent_req_done\<close> (lib/tevent) are
  not under src/. Here they act on the request of the run: an error code of 0 is no
  error and changes nothing; otherwise the request completes with the user error, or as
  done. \<^verbatim>\<open>sock_daemon_run\<close> sets no callback on this request, so completing it only
  changes its state.
\<close>

definition tevent_req_error :: "int \<Rightarrow> world \<Rightarrow> world" where
  "tevent_req_error e w = (if e = 0 then w else w\<lparr>run_req := TEVENT_REQ_USER_ERROR e\<rparr>)"

definition tevent_req_done :: "world \<Rightarrow> world" where
  "tevent_req_done w = w\<lparr>run_req := TEVENT_REQ_DONE\<rparr>"

text \<open>
  Modelled from the spec: \<^verbatim>\<open>tevent_req_is_unix_error\<close> (lib/util/tevent\_unix.c) is
  not under src/. A request that is done has no error; out of memory is \<open>ENOMEM\<close>, a
  user error is its code, any other state is \<open>EINVAL\<close>.
\<close>

fun tevent_req_is_unix_error :: "tevent_req_state \<Rightarrow> int option" where
  "tevent_req_is_unix_error TEVENT_REQ_DONE = None"
| "tevent_req_is_unix_error TEVENT_REQ_NO_MEMORY = Some ENOMEM"
| "tevent_req_is_unix_error (TEVENT_REQ_USER_ERROR e) = Some e"
| "tevent_req_is_unix_error TEVENT_REQ_IN_PROGRESS = Some EINVAL"

text \<open>\<^verbatim>\<open>sock_daemon_run_recv\<close>, lines 794 to 806: the status and the error.\<close>

definition sock_daemon_run_recv :: "world \<Rightarrow> bool \<times> int option" where
  "sock_daemon_run_recv w =
     (case tevent_req_is_unix_error (run_req w) of
        Some ret \<Rightarrow> (False, Some ret)
      | None \<Rightarrow> (True, None))"

text \<open>
  \<^verbatim>\<open>sock_daemon_socket_fail\<close>, lines 737 to 755, the callback of the accept loop
  request of listener \<open>i\<close>, called when that request completes in state \<open>rs\<close>.
  \<^verbatim>\<open>sock_socket_start_recv\<close> (lines 401 to 417) clears \<^verbatim>\<open>sock->req\<close>;
  \<^verbatim>\<open>TALLOC_FREE(subreq)\<close> then frees the accept loop state.
\<close>

definition sock_daemon_socket_fail :: "nat \<Rightarrow> tevent_req_state \<Rightarrow> world \<Rightarrow> world" where
  "sock_daemon_socket_fail i rs w =
     (case state_at i w of
        None \<Rightarrow> w
      | Some st \<Rightarrow>
          let w1 = set_state_at i None w;
              w2 = talloc_free_req (Some st) w1;
              w3 = (case tevent_req_is_unix_error rs of
                      Some ret \<Rightarrow> tevent_req_error ret w2
                    | None \<Rightarrow> tevent_req_done w2)
          in sock_daemon_shutdown w3)"

text \<open>
  Modelled from the spec: \<^verbatim>\<open>tevent_req_nomem\<close> (lib/tevent) is not under src/. Called
  with NULL on the accept loop request of listener \<open>i\<close>, it completes that request in
  the out-of-memory state, which at once calls the callback that
  \<^verbatim>\<open>sock_daemon_run_send\<close> set on it (line 651): \<^verbatim>\<open>sock_daemon_socket_fail\<close>.
\<close>

definition tevent_req_oom :: "nat \<Rightarrow> world \<Rightarrow> world" where
  "tevent_req_oom i w = sock_daemon_socket_fail i TEVENT_REQ_NO_MEMORY w"

subsection \<open>The accept loop\<close>

text \<open>
  \<^verbatim>\<open>sock_socket_start_new_client\<close>, lines 346 to 388, for listener \<open>i\<close>.
  \<^verbatim>\<open>accept_recv\<close> hands over the accepted descriptor, which is open from then on, and
  the completed accept is freed. \<^verbatim>\<open>DLIST_ADD\<close> puts the slot at the head of the
  registry. A slot that is freed before its destructor is set leaves the registry alone.
\<close>

definition sock_socket_start_new_client :: "accept_env \<Rightarrow> nat \<Rightarrow> world \<Rightarrow> world" where
  "sock_socket_start_new_client ae i w =
     (case (sock_at i w, state_at i w) of
        (Some sock, Some st) \<Rightarrow>
          let client_fd = ae_client_fd ae;
              w0 = set_state_at i (Some (st\<lparr>st_accept := False\<rparr>))
                     (if client_fd = -1 then w
                      else w\<lparr>open_fds := insert client_fd (open_fds w)\<rparr>);
              w1 = (if client_fd = -1
                    then emit (D_ERR ''failed to accept new connection'') w0 else w0)
          in
          if \<not> ae_accept_send ae then tevent_req_oom i w1
          else
            let w2 = emit (Accept_send (ss_fd sock))
                       (set_state_at i (Some (st\<lparr>st_accept := True\<rparr>)) w1) in
            if client_fd = -1 then w2
            else if \<not> ae_client_alloc ae then sys_close client_fd (tevent_req_oom i w2)
            else
              let client = \<lparr>sc_id = next_id w2, sc_client_ctx = None\<rparr>;
                  w3 = w2\<lparr>next_id := Suc (next_id w2)\<rparr>
              in
              (case sock_client_context_init ae sock client_fd (sc_client_ctx client) w3 of
                 (ret, result, w4) \<Rightarrow>
                   if ret \<noteq> 0 then emit (Free_client (sc_id client)) w4
                   else set_client_list i
                          (client\<lparr>sc_client_ctx := result\<rparr> # client_list_at i w4) w4)
      | _ \<Rightarrow> w)"

subsection \<open>Signals and the watched process\<close>

text \<open>\<^verbatim>\<open>sock_daemon_started\<close>, lines 670 to 683.\<close>

definition sock_daemon_started :: "world \<Rightarrow> world" where
  "sock_daemon_started w =
     (let w1 = emit (D_NOTICE ''daemon started, pid=%u'') w in
      case sd_funcs (sockd w1) of
        None \<Rightarrow> w1
      | Some f \<Rightarrow> if startup f then emit Cb_startup w1 else w1)"

text \<open>\<^verbatim>\<open>sock_daemon_reconfigure\<close>, lines 708 to 715.\<close>

definition sock_daemon_reconfigure :: "world \<Rightarrow> world" where
  "sock_daemon_reconfigure w =
     (case sd_funcs (sockd w) of
        None \<Rightarrow> w
      | Some f \<Rightarrow> if reconfigure f then emit Cb_reconfigure w else w)"

text \<open>\<^verbatim>\<open>sock_daemon_signal_handler\<close>, lines 685 to 706.\<close>

definition sock_daemon_signal_handler :: "int \<Rightarrow> world \<Rightarrow> world" where
  "sock_daemon_signal_handler signum w =
     (let w1 = emit (D_NOTICE ''Received signal %d'') w in
      if signum = SIGHUP \<or> signum = SIGUSR1 then sock_daemon_reconfigure w1
      else if signum = SIGINT \<or> signum = SIGTERM
      then tevent_req_error EINTR (sock_daemon_shutdown w1)
      else w1)"

text \<open>
  What the system answers to \<^verbatim>\<open>sock_daemon_watch_pid\<close>: the status of the wakeup, the
  result of \<^verbatim>\<open>kill\<close> with its \<^verbatim>\<open>errno\<close>, and whether the next wakeup could be
  allocated.
\<close>

record watch_env =
  we_wakeup :: bool
  we_kill :: int
  we_errno :: int
  we_wakeup_send :: bool

text \<open>\<^verbatim>\<open>sock_daemon_watch_pid\<close>, lines 757 to 792.\<close>

definition sock_daemon_watch_pid :: "watch_env \<Rightarrow> world \<Rightarrow> world" where
  "sock_daemon_watch_pid we w =
     (if \<not> we_wakeup we then tevent_req_error EIO w
      else
        let w1 = emit (Sys_kill (pid_watch w)) w in
        if we_kill we = -1 \<and> we_errno we = ESRCH
        then tevent_req_error ESRCH
               (sock_daemon_shutdown (emit (D_ERR ''PID %d gone away, exiting'') w1))
        else
          let w2 = (if we_kill we = -1
                    then emit (D_ERR ''Failed to check PID status %d, ret=%d'') w1 else w1)
          in if \<not> we_wakeup_send we then w2\<lparr>run_req := TEVENT_REQ_NO_MEMORY\<rparr> else w2)"

subsection \<open>The event loop\<close>

text \<open>
  What the event loop can hand to the daemon while the run request exists: the zero
  delay timer of \<^verbatim>\<open>sock_daemon_run_send\<close>, a signal, a completed accept on listener
  \<open>i\<close>, and for the session in slot \<open>c\<close> of listener \<open>i\<close> a message from the
  transport, the completion of the application's read request, or the death of the peer;
  and the timer of the process watch.
\<close>

datatype event =
    Ev_started
  | Ev_signal int
  | Ev_accept accept_env nat
  | Ev_message "8 word list" nat nat
  | Ev_read_done nat nat
  | Ev_dead nat nat
  | Ev_watch_pid watch_env

fun dispatch :: "event \<Rightarrow> world \<Rightarrow> world option" where
  "dispatch Ev_started w = Some (sock_daemon_started w)"
| "dispatch (Ev_signal signum) w = Some (sock_daemon_signal_handler signum w)"
| "dispatch (Ev_accept ae i) w = Some (sock_socket_start_new_client ae i w)"
| "dispatch (Ev_message buf i c) w = sock_client_read_handler buf i c w"
| "dispatch (Ev_read_done i c) w = sock_client_read_done i c w"
| "dispatch (Ev_dead i c) w = Some (sock_client_dead_handler i c w)"
| "dispatch (Ev_watch_pid we) w = Some (sock_daemon_watch_pid we w)"

text \<open>
  Modelled from the spec: \<^verbatim>\<open>tevent_req_poll\<close> is not under src/. It turns the loop
  while the request is in progress; each turn runs one handler. The events are those the
  loop will deliver, in order. The value is None when a handler called through a NULL
  pointer.
\<close>

fun tevent_req_poll :: "event list \<Rightarrow> world \<Rightarrow> world option" where
  "tevent_req_poll [] w = Some w"
| "tevent_req_poll (e # es) w =
     (if run_req w \<noteq> TEVENT_REQ_IN_PROGRESS then Some w
      else (case dispatch e w of
              None \<Rightarrow> None
            | Some w1 \<Rightarrow> tevent_req_poll es w1))"

text \<open>
  \<^verbatim>\<open>sock_daemon_run\<close>, lines 821 to 830, after \<^verbatim>\<open>sock_daemon_run_send\<close> has
  returned the request. \<open>Polling\<close>: the events are used up and the call has not
  returned.
\<close>

datatype run_result = Polling | Returned int | Crashed

definition sock_daemon_run :: "event list \<Rightarrow> world \<Rightarrow> run_result" where
  "sock_daemon_run es w =
     (case tevent_req_poll es w of
        None \<Rightarrow> Crashed
      | Some w1 \<Rightarrow>
          if run_req w1 = TEVENT_REQ_IN_PROGRESS then Polling
          else (case sock_daemon_run_recv w1 of
                  (False, Some ret) \<Rightarrow> Returned ret
                | _ \<Rightarrow> Returned 0))"

subsection \<open>Example processes\<close>

text \<open>
  Three callback tables: one whose connect callback accepts every connection and whose
  \<^verbatim>\<open>read_recv\<close> reports the failure 5; one with no connect and no disconnect callback
  whose \<^verbatim>\<open>read_send\<close> returns no request; one whose connect callback turns every
  connection away.
\<close>

definition echo_funcs :: sock_socket_funcs where
  "echo_funcs =
     \<lparr>connect = Some (\<lambda>fd. True), disconnect = Some (\<lambda>fd. ()),
      read_send = Some (\<lambda>fd buf. True), read_recv = Some (\<lambda>fd. (False, 5))\<rparr>"

definition plain_funcs :: sock_socket_funcs where
  "plain_funcs =
     \<lparr>connect = None, disconnect = None,
      read_send = Some (\<lambda>fd buf. False), read_recv = Some (\<lambda>fd. (True, 0))\<rparr>"

definition reject_funcs :: sock_socket_funcs where
  "reject_funcs =
     \<lparr>connect = Some (\<lambda>fd. False), disconnect = Some (\<lambda>fd. ()),
      read_send = Some (\<lambda>fd buf. True), read_recv = Some (\<lambda>fd. (True, 0))\<rparr>"

definition all_funcs :: sock_daemon_funcs where
  "all_funcs = \<lparr>startup = True, reconfigure = True, shutdown = True\<rparr>"

text \<open>Linux: \<^verbatim>\<open>sizeof(addr.sun_path)\<close> is 108. Every system call succeeds.\<close>

definition env_ok :: "int \<Rightarrow> socket_env" where
  "env_ok fd =
     \<lparr>se_sun_path_size = 108, se_socket = fd, se_set_blocking = 0, se_bind = 0, se_listen = 0\<rparr>"

definition accept_ok :: "int \<Rightarrow> accept_env" where
  "accept_ok fd =
     \<lparr>ae_client_fd = fd, ae_accept_send = True, ae_client_alloc = True, ae_ctx_alloc = True,
      ae_comm_setup = 0\<rparr>"

text \<open>
  The process after \<^verbatim>\<open>sock_daemon_setup\<close> with a PID file and all three lifecycle
  callbacks.
\<close>

definition w_setup :: world where
  "w_setup =
     \<lparr>sockd = \<lparr>sd_funcs = Some all_funcs, sd_pid_ctx = Some ''/run/d.pid'', sd_socket_list = []\<rparr>,
      run_req = TEVENT_REQ_IN_PROGRESS, pid_watch = 0, open_fds = {0, 1, 2},
      next_id = 0, trace = []\<rparr>"

text \<open>
  \<^verbatim>\<open>sock_daemon_run_send\<close> (lines 646 to 654) starts the accept loop of every
  listener: \<^verbatim>\<open>sock_socket_start_send\<close> (lines 307 to 332) creates the state with an
  empty registry and posts the first accept. Here every allocation succeeds.
\<close>

definition start_all :: "world \<Rightarrow> world" where
  "start_all w =
     set_socket_list
       (map (\<lambda>sock. sock\<lparr>ss_req := Some \<lparr>st_client_list = [], st_accept = True\<rparr>\<rparr>) (socket_list w)) w"

definition w_one :: "sock_socket_funcs \<Rightarrow> world" where
  "w_one funcs =
     (start_all (snd (sock_daemon_add_unix (env_ok 3) True ''/tmp/t.sock'' (Some funcs) w_setup)))
       \<lparr>trace := []\<rparr>"

subsection \<open>The steps of a teardown, in the spec's words\<close>

text \<open>
  Destroying a session: the transport is torn down and the descriptor is closed (once,
  guarded by the sentinel -1); the registry slot is released.
\<close>

definition session_release :: "sock_client_context \<Rightarrow> action list" where
  "session_release cc =
     (if cc_comm cc then [Free_comm (cc_fd cc)] else [])
     @ (if cc_fd cc \<noteq> -1 then [Sys_close (cc_fd cc)] else [])"

definition session_fds :: "sock_client \<Rightarrow> int set" where
  "session_fds client =
     (case sc_client_ctx client of
        None \<Rightarrow> {}
      | Some cc \<Rightarrow> if cc_fd cc \<noteq> -1 then {cc_fd cc} else {})"

definition session_teardown :: "sock_client \<Rightarrow> action list" where
  "session_teardown client =
     (case sc_client_ctx client of None \<Rightarrow> [] | Some cc \<Rightarrow> session_release cc)
     @ [Free_client (sc_id client)]"

definition registry :: "sock_socket \<Rightarrow> sock_client list" where
  "registry sock = (case ss_req sock of None \<Rightarrow> [] | Some st \<Rightarrow> st_client_list st)"

text \<open>
  Destroying a listener: all of its sessions are destroyed, its listening descriptor is
  closed and its socket path is unlinked.
\<close>

definition listener_teardown :: "sock_socket \<Rightarrow> action list" where
  "listener_teardown sock =
     concat (map session_teardown (registry sock))
     @ (if ss_fd sock \<noteq> -1 then [Sys_close (ss_fd sock)] else [])
     @ [Sys_unlink (ss_sockpath sock), Free_sock (ss_sockpath sock)]"

definition listener_fds :: "sock_socket \<Rightarrow> int set" where
  "listener_fds sock =
     (\<Union>client \<in> set (registry sock). session_fds client)
     \<union> (if ss_fd sock \<noteq> -1 then {ss_fd sock} else {})"

text \<open>The application's shutdown callback, when defined; the release of the PID file.\<close>

definition shutdown_callback :: "sock_daemon_context \<Rightarrow> action list" where
  "shutdown_callback sd =
     (case sd_funcs sd of None \<Rightarrow> [] | Some f \<Rightarrow> if shutdown f then [Cb_shutdown] else [])"

definition pidfile_release :: "sock_daemon_context \<Rightarrow> action list" where
  "pidfile_release sd = (case sd_pid_ctx sd of None \<Rightarrow> [] | Some pidfile \<Rightarrow> [Free_pidfile pidfile])"

definition reconfigure_callback :: "sock_daemon_context \<Rightarrow> action list" where
  "reconfigure_callback sd =
     (case sd_funcs sd of None \<Rightarrow> [] | Some f \<Rightarrow> if reconfigure f then [Cb_reconfigure] else [])"

text \<open>A process with a listener that serves one session on descriptor 4.\<close>

definition w_session :: "sock_socket_funcs \<Rightarrow> world" where
  "w_session funcs = (sock_socket_start_new_client (accept_ok 4) 0 (w_one funcs))\<lparr>trace := []\<rparr>"

text \<open>
  The slot \<open>x\<close> is in the registry of listener \<open>i\<close>, unless the accept loop
  state of that listener has been destroyed.
\<close>

definition keeps :: "nat \<Rightarrow> sock_client \<Rightarrow> world \<Rightarrow> bool" where
  "keeps i x w = (state_at i w = None \<or> x \<in> set (client_list_at i w))"

text \<open>
  The client contexts for which the disconnect callback was called, by their
  descriptors, in the order of the calls.
\<close>

fun disconnects :: "action list \<Rightarrow> int list" where
  "disconnects [] = []"
| "disconnects (Cb_disconnect fd # tr) = fd # disconnects tr"
| "disconnects (_ # tr) = disconnects tr"

section \<open>Properties\<close>

subsection \<open>Projections of the state\<close>

lemma emit_fields [simp]:
  "sockd (emit a w) = sockd w" "run_req (emit a w) = run_req w"
  "pid_watch (emit a w) = pid_watch w" "open_fds (emit a w) = open_fds w"
  "next_id (emit a w) = next_id w" "trace (emit a w) = trace w @ [a]"
  by (simp_all add: emit_def)

lemma sys_close_fields [simp]:
  "sockd (sys_close fd w) = sockd w" "run_req (sys_close fd w) = run_req w"
  "pid_watch (sys_close fd w) = pid_watch w" "open_fds (sys_close fd w) = open_fds w - {fd}"
  "next_id (sys_close fd w) = next_id w" "trace (sys_close fd w) = trace w @ [Sys_close fd]"
  by (simp_all add: sys_close_def)

lemma socket_list_emit [simp]: "socket_list (emit a w) = socket_list w"
  by (simp add: socket_list_def)

lemma socket_list_sys_close [simp]: "socket_list (sys_close fd w) = socket_list w"
  by (simp add: socket_list_def)

text \<open>
  C6. \<^verbatim>\<open>sock_daemon_add_unix\<close> called with a NULL callback table, or with a table
  whose \<open>read_send\<close> or \<open>read_recv\<close> is NULL, returns \<open>EINVAL\<close> and leaves the
  process as it was: no descriptor is created (the set of open descriptors and the trace
  are unchanged, so \<^verbatim>\<open>socket()\<close> was not called) and no listener is added.
\<close>

theorem add_unix_missing_callbacks:
  "sock_daemon_add_unix env alloc sockpath None w = (EINVAL, w)
   \<and> sock_daemon_add_unix env alloc sockpath (Some (f\<lparr>read_send := None\<rparr>)) w = (EINVAL, w)
   \<and> sock_daemon_add_unix env alloc sockpath (Some (f\<lparr>read_recv := None\<rparr>)) w = (EINVAL, w)"
  by (simp add: sock_daemon_add_unix_def sock_socket_init_def)

theorem add_unix_missing_callbacks_witness:
  "sock_daemon_add_unix (env_ok 3) True ''/tmp/t.sock'' None w_setup = (22, w_setup)
   \<and> sock_daemon_add_unix (env_ok 3) True ''/tmp/t.sock''
        (Some (echo_funcs\<lparr>read_send := None\<rparr>)) w_setup = (22, w_setup)
   \<and> sock_daemon_add_unix (env_ok 3) True ''/tmp/t.sock''
        (Some (echo_funcs\<lparr>read_recv := None\<rparr>)) w_setup = (22, w_setup)"
  using add_unix_missing_callbacks [of "env_ok 3" True "''/tmp/t.sock''" w_setup echo_funcs]
  by (simp add: EINVAL_def)

text \<open>
  C5, as the claim states it, fails: with a valid callback table and memory available, a
  path of 108 characters (the size of \<^verbatim>\<open>sun_path\<close> on Linux) makes
  \<^verbatim>\<open>sock_daemon_add_unix\<close> return \<open>EIO\<close>, not \<open>EINVAL\<close>.
\<close>

theorem add_unix_path_too_long_counterexample:
  "fst (sock_daemon_add_unix (env_ok 3) True (replicate 108 CHR ''a'') (Some echo_funcs) w_setup)
     = EIO
   \<and> EIO \<noteq> EINVAL"
  by (simp add: sock_daemon_add_unix_def sock_socket_init_def socket_setup_def env_ok_def
      echo_funcs_def EIO_def EINVAL_def)

text \<open>
  C5, amended. When the socket path does not fit \<^verbatim>\<open>sun_path\<close>,
  \<^verbatim>\<open>sock_daemon_add_unix\<close> fails, no descriptor is created and no listener is added.
  The error is \<open>EIO\<close> whenever the callback table is valid and memory is available
  (\<open>EINVAL\<close> only for an invalid callback table, \<open>ENOMEM\<close> when the allocation
  fails); the path that is too long is logged.
\<close>

theorem add_unix_path_too_long:
  assumes "se_sun_path_size env \<le> length sockpath"
  shows "sock_daemon_add_unix env alloc sockpath funcs w =
           (case funcs of
              None \<Rightarrow> (EINVAL, w)
            | Some f \<Rightarrow>
                if read_send f = None \<or> read_recv f = None then (EINVAL, w)
                else if \<not> alloc then (ENOMEM, w)
                else (EIO, emit (D_ERR ''socket path too long: %s'') w))
         \<and> fst (sock_daemon_add_unix env alloc sockpath funcs w) \<in> {EINVAL, ENOMEM, EIO}
         \<and> open_fds (snd (sock_daemon_add_unix env alloc sockpath funcs w)) = open_fds w
         \<and> socket_list (snd (sock_daemon_add_unix env alloc sockpath funcs w)) = socket_list w"
  using assms
  by (simp add: sock_daemon_add_unix_def sock_socket_init_def socket_setup_def
      split: option.splits)

theorem add_unix_path_too_long_witness:
  "se_sun_path_size (env_ok 3) \<le> length (replicate 108 CHR ''a'')
   \<and> sock_daemon_add_unix (env_ok 3) True (replicate 108 CHR ''a'') (Some echo_funcs) w_setup
       = (5, emit (D_ERR ''socket path too long: %s'') w_setup)
   \<and> open_fds (snd (sock_daemon_add_unix (env_ok 3) True (replicate 108 CHR ''a'')
        (Some echo_funcs) w_setup)) = {0, 1, 2}"
proof -
  have h: "se_sun_path_size (env_ok 3) \<le> length (replicate 108 CHR ''a'')"
    by (simp add: env_ok_def)
  show ?thesis
    using h add_unix_path_too_long [OF h, of True "Some echo_funcs" w_setup]
    by (simp add: echo_funcs_def EIO_def w_setup_def)
qed

subsection \<open>Teardown\<close>

lemma session_fds_UN_Cons:
  "(\<Union>x \<in> set (c # cs). session_fds x) = session_fds c \<union> (\<Union>x \<in> set cs. session_fds x)"
  by simp

lemma talloc_free_client_head:
  "talloc_free_client c (c # cs) w =
     (cs, w\<lparr>open_fds := open_fds w - session_fds c, trace := trace w @ session_teardown c\<rparr>)"
  by (simp add: talloc_free_client_def sock_socket_start_client_destructor_def
      sock_client_context_destructor_nested_def session_teardown_def session_release_def
      session_fds_def emit_def sys_close_def Let_def split: option.splits)

lemma state_destructor_Nil: "sock_socket_start_state_destructor [] w = ([], w)"
  by (simp add: sock_socket_start_state_destructor.simps [of "[]"])

lemma state_destructor_Cons:
  "sock_socket_start_state_destructor (c # cs) w =
     sock_socket_start_state_destructor cs
       (w\<lparr>open_fds := open_fds w - session_fds c, trace := trace w @ session_teardown c\<rparr>)"
  by (simp add: sock_socket_start_state_destructor.simps [of "c # cs"] talloc_free_client_head)

lemma state_destructor:
  "sock_socket_start_state_destructor l w =
     ([], w\<lparr>open_fds := open_fds w - (\<Union>x \<in> set l. session_fds x),
            trace := trace w @ concat (map session_teardown l)\<rparr>)"
proof (induction l arbitrary: w)
  case Nil
  then show ?case by (simp add: state_destructor_Nil)
next
  case (Cons c cs)
  have "open_fds w - session_fds c - (\<Union>x \<in> set cs. session_fds x) =
        open_fds w - (\<Union>x \<in> set (c # cs). session_fds x)"
    by auto
  then show ?case
    by (simp add: state_destructor_Cons Cons.IH)
qed

lemma talloc_free_req:
  "talloc_free_req req w =
     w\<lparr>open_fds := open_fds w - (\<Union>x \<in> set (case req of None \<Rightarrow> [] | Some st \<Rightarrow> st_client_list st). session_fds x),
       trace := trace w @ concat (map session_teardown (case req of None \<Rightarrow> [] | Some st \<Rightarrow> st_client_list st))\<rparr>"
  by (cases req) (simp_all add: talloc_free_req_def state_destructor)

lemma shutdown_socket:
  "shutdown_socket sock rest w =
     w\<lparr>sockd := (sockd w)\<lparr>sd_socket_list := rest\<rparr>,
       open_fds := open_fds w - listener_fds sock,
       trace := trace w @ listener_teardown sock\<rparr>"
proof -
  have "open_fds w - (\<Union>x \<in> set (registry sock). session_fds x) - {ss_fd sock}
        = open_fds w - ((\<Union>x \<in> set (registry sock). session_fds x) \<union> {ss_fd sock})"
    by auto
  then show ?thesis
  by (simp add: shutdown_socket_def talloc_free_sock_def sock_socket_destructor_def
      talloc_free_req set_socket_list_def listener_teardown_def listener_fds_def registry_def
      emit_def sys_close_def Let_def)
qed

lemma shutdown_sockets:
  "shutdown_sockets w =
     w\<lparr>sockd := (sockd w)\<lparr>sd_socket_list := []\<rparr>,
       open_fds := open_fds w - (\<Union>sock \<in> set (socket_list w). listener_fds sock),
       trace := trace w @ concat (map listener_teardown (socket_list w))\<rparr>"
proof (induction l \<equiv> "socket_list w" arbitrary: w)
  case Nil
  then have "sockd w = (sockd w)\<lparr>sd_socket_list := []\<rparr>"
    by (simp add: socket_list_def)
  with Nil [symmetric] show ?case
    by (simp add: shutdown_sockets.simps [of w])
next
  case (Cons sock rest)
  have l: "socket_list (shutdown_socket sock rest w) = rest"
    by (simp add: shutdown_socket socket_list_def)
  have "open_fds w - listener_fds sock - (\<Union>s \<in> set rest. listener_fds s) =
        open_fds w - (\<Union>s \<in> set (sock # rest). listener_fds s)"
    by auto
  with Cons(1) [of "shutdown_socket sock rest w"] l Cons(2) [symmetric] show ?case
    by (simp add: shutdown_sockets.simps [of w] shutdown_socket)
qed

lemma sock_daemon_shutdown_eq:
  "sock_daemon_shutdown w =
     w\<lparr>sockd := (sockd w)\<lparr>sd_pid_ctx := None, sd_socket_list := []\<rparr>,
       open_fds := open_fds w - (\<Union>sock \<in> set (socket_list w). listener_fds sock),
       trace := trace w @ [D_NOTICE ''Shutting down'']
                @ concat (map listener_teardown (socket_list w))
                @ shutdown_callback (sockd w) @ pidfile_release (sockd w)\<rparr>"
  by (simp add: sock_daemon_shutdown_def shutdown_sockets shutdown_callback_def
      pidfile_release_def emit_def Let_def socket_list_def split: option.splits)

lemma w_session_echo:
  "w_session echo_funcs =
     \<lparr>sockd = \<lparr>sd_funcs = Some all_funcs, sd_pid_ctx = Some ''/run/d.pid'',
               sd_socket_list =
                 [\<lparr>ss_sockpath = ''/tmp/t.sock'', ss_funcs = echo_funcs, ss_fd = 3,
                   ss_req = Some \<lparr>st_client_list =
                                   [\<lparr>sc_id = 0, sc_client_ctx = Some \<lparr>cc_fd = 4, cc_comm = True\<rparr>\<rparr>],
                                  st_accept = True\<rparr>\<rparr>]\<rparr>,
      run_req = TEVENT_REQ_IN_PROGRESS, pid_watch = 0, open_fds = {0, 1, 2, 3, 4},
      next_id = 1, trace = []\<rparr>"
  by (auto simp: w_session_def w_one_def w_setup_def start_all_def sock_daemon_add_unix_def
      sock_socket_init_def socket_setup_def env_ok_def accept_ok_def echo_funcs_def
      sock_socket_start_new_client_def sock_client_context_init_def sock_at_def state_at_def
      set_state_at_def set_client_list_def client_list_at_def socket_list_def
      set_socket_list_def emit_def Let_def)

text \<open>
  C4. \<^verbatim>\<open>sock_daemon_shutdown\<close> does exactly this, in this order: it logs that it shuts
  down; for every listener, from the head of the list, it takes the listener off the
  list, destroys each of its sessions (transport freed, descriptor closed, slot freed),
  closes the listening descriptor and unlinks the socket path; then it calls the
  application's shutdown callback when one is defined; last it releases the PID file when
  one is held. Afterwards the list of listeners is empty, no PID file is held and the
  descriptors of the listeners and of their sessions are closed.
\<close>

theorem shutdown_sequence:
  "trace (sock_daemon_shutdown w) =
     trace w @ [D_NOTICE ''Shutting down'']
     @ concat (map listener_teardown (socket_list w))
     @ shutdown_callback (sockd w)
     @ pidfile_release (sockd w)
   \<and> socket_list (sock_daemon_shutdown w) = []
   \<and> sd_pid_ctx (sockd (sock_daemon_shutdown w)) = None
   \<and> open_fds (sock_daemon_shutdown w) =
       open_fds w - (\<Union>sock \<in> set (socket_list w). listener_fds sock)"
  by (simp add: sock_daemon_shutdown_eq socket_list_def)

theorem shutdown_sequence_witness:
  "trace (sock_daemon_shutdown (w_session echo_funcs)) =
     [D_NOTICE ''Shutting down'', Free_comm 4, Sys_close 4, Free_client 0, Sys_close 3,
      Sys_unlink ''/tmp/t.sock'', Free_sock ''/tmp/t.sock'', Cb_shutdown,
      Free_pidfile ''/run/d.pid'']
   \<and> socket_list (sock_daemon_shutdown (w_session echo_funcs)) = []
   \<and> open_fds (sock_daemon_shutdown (w_session echo_funcs)) = {0, 1, 2}"
  by (simp only: shutdown_sequence [of "w_session echo_funcs"])
     (auto simp: w_session_echo socket_list_def listener_teardown_def listener_fds_def
      registry_def session_teardown_def session_release_def session_fds_def
      shutdown_callback_def pidfile_release_def all_funcs_def)

text \<open>
  C3, as the claim states it, fails. A process with a shutdown callback receives SIGINT
  and SIGTERM: each handler runs the shutdown sequence, and the second run calls the
  application's shutdown callback again.
\<close>

theorem shutdown_idempotent_counterexample:
  "count_list (trace (sock_daemon_signal_handler SIGINT (w_session echo_funcs))) Cb_shutdown = 1
   \<and> count_list
        (trace (sock_daemon_signal_handler SIGTERM
                 (sock_daemon_signal_handler SIGINT (w_session echo_funcs)))) Cb_shutdown = 2"
  by (simp add: sock_daemon_signal_handler_def sock_daemon_shutdown_eq tevent_req_error_def
      w_session_echo socket_list_def listener_teardown_def listener_fds_def
      registry_def session_teardown_def session_release_def session_fds_def
      shutdown_callback_def pidfile_release_def all_funcs_def emit_def
      SIGINT_def SIGTERM_def SIGHUP_def SIGUSR1_def EINTR_def)

text \<open>
  C3, amended. After one run of the shutdown sequence a further run destroys no
  listener, closes no descriptor and does not release the PID file again: it leaves the
  state of the process as it is, apart from logging once more and calling the
  application's shutdown callback once more when one is defined.
\<close>

theorem shutdown_twice:
  "sock_daemon_shutdown (sock_daemon_shutdown w) =
     (sock_daemon_shutdown w)
       \<lparr>trace := trace (sock_daemon_shutdown w)
                  @ [D_NOTICE ''Shutting down''] @ shutdown_callback (sockd w)\<rparr>"
  by (simp add: sock_daemon_shutdown_eq socket_list_def shutdown_callback_def
      pidfile_release_def)

theorem shutdown_twice_witness:
  "trace (sock_daemon_shutdown (sock_daemon_shutdown (w_session echo_funcs))) =
     [D_NOTICE ''Shutting down'', Free_comm 4, Sys_close 4, Free_client 0, Sys_close 3,
      Sys_unlink ''/tmp/t.sock'', Free_sock ''/tmp/t.sock'', Cb_shutdown,
      Free_pidfile ''/run/d.pid'', D_NOTICE ''Shutting down'', Cb_shutdown]"
  using arg_cong [OF shutdown_twice [of "w_session echo_funcs"], of trace]
  by (simp add: sock_daemon_shutdown_eq
      w_session_echo socket_list_def listener_teardown_def listener_fds_def
      registry_def session_teardown_def session_release_def session_fds_def
      shutdown_callback_def pidfile_release_def all_funcs_def)

subsection \<open>Signals\<close>

lemma signal_reconfigure:
  "signum = SIGHUP \<or> signum = SIGUSR1 \<Longrightarrow>
   sock_daemon_signal_handler signum w =
     w\<lparr>trace := trace w @ D_NOTICE ''Received signal %d'' # reconfigure_callback (sockd w)\<rparr>"
  by (auto simp: sock_daemon_signal_handler_def sock_daemon_reconfigure_def
      reconfigure_callback_def emit_def Let_def split: option.splits)

lemma signal_shutdown:
  "signum = SIGINT \<or> signum = SIGTERM \<Longrightarrow>
   sock_daemon_signal_handler signum w =
     (sock_daemon_shutdown (emit (D_NOTICE ''Received signal %d'') w))
       \<lparr>run_req := TEVENT_REQ_USER_ERROR EINTR\<rparr>"
  by (auto simp: sock_daemon_signal_handler_def tevent_req_error_def Let_def
      SIGINT_def SIGTERM_def SIGHUP_def SIGUSR1_def EINTR_def)

lemma poll_finished:
  "run_req w \<noteq> TEVENT_REQ_IN_PROGRESS \<Longrightarrow> tevent_req_poll es w = Some w"
  by (cases es) simp_all

lemma poll_append:
  "tevent_req_poll (es @ es') w =
     (case tevent_req_poll es w of None \<Rightarrow> None | Some w1 \<Rightarrow> tevent_req_poll es' w1)"
  by (induction es arbitrary: w) (auto simp: poll_finished split: option.splits)

lemma poll_reconfigure:
  "\<forall>e \<in> set es. e = Ev_signal SIGHUP \<or> e = Ev_signal SIGUSR1 \<Longrightarrow>
   run_req w = TEVENT_REQ_IN_PROGRESS \<Longrightarrow>
   tevent_req_poll es w =
     Some (w\<lparr>trace := trace w
            @ concat (map (\<lambda>e. D_NOTICE ''Received signal %d'' # reconfigure_callback (sockd w)) es)\<rparr>)"
proof (induction es arbitrary: w)
  case Nil
  then show ?case by simp
next
  case (Cons e es)
  then obtain signum where e: "e = Ev_signal signum" and s: "signum = SIGHUP \<or> signum = SIGUSR1"
    by auto
  let ?w1 = "w\<lparr>trace := trace w @ D_NOTICE ''Received signal %d'' # reconfigure_callback (sockd w)\<rparr>"
  have "tevent_req_poll (e # es) w = tevent_req_poll es ?w1"
    using Cons.prems(2) e signal_reconfigure [OF s, of w] by simp
  moreover have "tevent_req_poll es ?w1 =
     Some (?w1\<lparr>trace := trace ?w1
            @ concat (map (\<lambda>e. D_NOTICE ''Received signal %d'' # reconfigure_callback (sockd ?w1)) es)\<rparr>)"
    using Cons.prems by (intro Cons.IH) simp_all
  ultimately show ?case by simp
qed

lemma signal_shutdown_fields:
  assumes "signum = SIGINT \<or> signum = SIGTERM"
  shows "trace (sock_daemon_signal_handler signum w) =
           trace w @ [D_NOTICE ''Received signal %d'', D_NOTICE ''Shutting down'']
           @ concat (map listener_teardown (socket_list w))
           @ shutdown_callback (sockd w) @ pidfile_release (sockd w)"
    and "socket_list (sock_daemon_signal_handler signum w) = []"
    and "sd_pid_ctx (sockd (sock_daemon_signal_handler signum w)) = None"
    and "open_fds (sock_daemon_signal_handler signum w) =
           open_fds w - (\<Union>sock \<in> set (socket_list w). listener_fds sock)"
    and "run_req (sock_daemon_signal_handler signum w) = TEVENT_REQ_USER_ERROR EINTR"
  by (simp_all add: signal_shutdown [OF assms] sock_daemon_shutdown_eq socket_list_def
      shutdown_callback_def pidfile_release_def)

text \<open>
  C2. While the run request is in progress, the handler of SIGHUP or SIGUSR1 calls the
  application's reconfigure callback (once, when one is defined) and changes nothing
  else, so that after any number of such signals \<^verbatim>\<open>sock_daemon_run\<close> is still
  polling. The handler of SIGINT or SIGTERM performs the shutdown sequence: after the
  two log lines every listener is torn down (its sessions destroyed, its descriptor
  closed, its path unlinked), the application's shutdown callback is called when one is
  defined and the PID file is released; no listener and no PID file are left and the
  descriptors of the listeners and of their sessions are closed. It then completes the
  run request with the error \<open>EINTR\<close>, which \<^verbatim>\<open>sock_daemon_run\<close> returns whatever
  events would follow.
\<close>

theorem signal_handling:
  assumes "run_req w = TEVENT_REQ_IN_PROGRESS"
    and "\<forall>e \<in> set es. e = Ev_signal SIGHUP \<or> e = Ev_signal SIGUSR1"
    and "signum = SIGINT \<or> signum = SIGTERM"
  shows "tevent_req_poll es w =
           Some (w\<lparr>trace := trace w
                  @ concat (map (\<lambda>e. D_NOTICE ''Received signal %d''
                                       # reconfigure_callback (sockd w)) es)\<rparr>)
         \<and> sock_daemon_run es w = Polling
         \<and> sock_daemon_signal_handler signum w =
             (sock_daemon_shutdown (emit (D_NOTICE ''Received signal %d'') w))
               \<lparr>run_req := TEVENT_REQ_USER_ERROR EINTR\<rparr>
         \<and> sock_daemon_run (es @ Ev_signal signum # rest) w = Returned EINTR
         \<and> trace (sock_daemon_signal_handler signum w) =
             trace w @ [D_NOTICE ''Received signal %d'', D_NOTICE ''Shutting down'']
             @ concat (map listener_teardown (socket_list w))
             @ shutdown_callback (sockd w) @ pidfile_release (sockd w)
         \<and> socket_list (sock_daemon_signal_handler signum w) = []
         \<and> sd_pid_ctx (sockd (sock_daemon_signal_handler signum w)) = None
         \<and> open_fds (sock_daemon_signal_handler signum w) =
             open_fds w - (\<Union>sock \<in> set (socket_list w). listener_fds sock)
         \<and> run_req (sock_daemon_signal_handler signum w) = TEVENT_REQ_USER_ERROR EINTR
         \<and> (\<exists>w'. tevent_req_poll (es @ Ev_signal signum # rest) w = Some w'
                \<and> trace w' =
                    trace w
                    @ concat (map (\<lambda>e. D_NOTICE ''Received signal %d''
                                         # reconfigure_callback (sockd w)) es)
                    @ [D_NOTICE ''Received signal %d'', D_NOTICE ''Shutting down'']
                    @ concat (map listener_teardown (socket_list w))
                    @ shutdown_callback (sockd w) @ pidfile_release (sockd w)
                \<and> socket_list w' = []
                \<and> sd_pid_ctx (sockd w') = None
                \<and> open_fds w' = open_fds w - (\<Union>sock \<in> set (socket_list w). listener_fds sock)
                \<and> run_req w' = TEVENT_REQ_USER_ERROR EINTR)"
proof -
  let ?w1 = "w\<lparr>trace := trace w
      @ concat (map (\<lambda>e. D_NOTICE ''Received signal %d'' # reconfigure_callback (sockd w)) es)\<rparr>"
  have p: "tevent_req_poll es w = Some ?w1"
    using assms(1,2) by (simp add: poll_reconfigure)
  have r: "run_req ?w1 = TEVENT_REQ_IN_PROGRESS"
    using assms(1) by simp
  have q: "tevent_req_poll (es @ Ev_signal signum # rest) w =
      Some (sock_daemon_signal_handler signum ?w1)"
    by (simp add: poll_append p r poll_finished signal_shutdown_fields(5) [OF assms(3)])
  have s: "socket_list ?w1 = socket_list w" "sockd ?w1 = sockd w"
    by (simp_all add: socket_list_def)
  have fin: "sock_daemon_run (es @ Ev_signal signum # rest) w = Returned EINTR"
    by (simp add: q sock_daemon_run_def sock_daemon_run_recv_def
        signal_shutdown_fields(5) [OF assms(3)])
  have pol: "sock_daemon_run es w = Polling"
    using p r by (simp add: sock_daemon_run_def)
  have ex: "\<exists>w'. tevent_req_poll (es @ Ev_signal signum # rest) w = Some w'
      \<and> trace w' =
          trace w
          @ concat (map (\<lambda>e. D_NOTICE ''Received signal %d'' # reconfigure_callback (sockd w)) es)
          @ [D_NOTICE ''Received signal %d'', D_NOTICE ''Shutting down'']
          @ concat (map listener_teardown (socket_list w))
          @ shutdown_callback (sockd w) @ pidfile_release (sockd w)
      \<and> socket_list w' = []
      \<and> sd_pid_ctx (sockd w') = None
      \<and> open_fds w' = open_fds w - (\<Union>sock \<in> set (socket_list w). listener_fds sock)
      \<and> run_req w' = TEVENT_REQ_USER_ERROR EINTR"
    using signal_shutdown_fields [OF assms(3), of ?w1]
    by (simp add: q s)
  show ?thesis
    using p pol fin ex signal_shutdown [OF assms(3), of w]
      signal_shutdown_fields [OF assms(3), of w]
    by (intro conjI)
qed

theorem signal_handling_witness:
  "run_req (w_session echo_funcs) = TEVENT_REQ_IN_PROGRESS
   \<and> sock_daemon_run [Ev_signal SIGHUP, Ev_signal SIGUSR1, Ev_signal SIGHUP] (w_session echo_funcs)
       = Polling
   \<and> sock_daemon_run [Ev_signal SIGHUP, Ev_signal SIGTERM, Ev_dead 0 0] (w_session echo_funcs)
       = Returned 4
   \<and> trace (sock_daemon_signal_handler SIGTERM (w_session echo_funcs)) =
       [D_NOTICE ''Received signal %d'', D_NOTICE ''Shutting down'', Free_comm 4, Sys_close 4,
        Free_client 0, Sys_close 3, Sys_unlink ''/tmp/t.sock'', Free_sock ''/tmp/t.sock'',
        Cb_shutdown, Free_pidfile ''/run/d.pid'']
   \<and> socket_list (sock_daemon_signal_handler SIGTERM (w_session echo_funcs)) = []
   \<and> sd_pid_ctx (sockd (sock_daemon_signal_handler SIGTERM (w_session echo_funcs))) = None
   \<and> 3 \<notin> open_fds (sock_daemon_signal_handler SIGTERM (w_session echo_funcs))
   \<and> 4 \<notin> open_fds (sock_daemon_signal_handler SIGTERM (w_session echo_funcs))"
proof -
  have a: "run_req (w_session echo_funcs) = TEVENT_REQ_IN_PROGRESS"
    by (simp add: w_session_echo)
  have b: "\<forall>e \<in> set [Ev_signal SIGHUP, Ev_signal SIGUSR1, Ev_signal SIGHUP].
             e = Ev_signal SIGHUP \<or> e = Ev_signal SIGUSR1"
    by simp
  have d: "\<forall>e \<in> set [Ev_signal SIGHUP]. e = Ev_signal SIGHUP \<or> e = Ev_signal SIGUSR1"
    by simp
  have e: "SIGTERM = SIGINT \<or> SIGTERM = SIGTERM"
    by simp
  note t1 = signal_handling [OF a b e, of "[]"]
  note t2 = signal_handling [OF a d e, of "[Ev_dead 0 0]"]
  have 1: "sock_daemon_run [Ev_signal SIGHUP, Ev_signal SIGUSR1, Ev_signal SIGHUP]
             (w_session echo_funcs) = Polling"
    using t1 by (rule conjunct1 [OF conjunct2])
  have "sock_daemon_run ([Ev_signal SIGHUP] @ Ev_signal SIGTERM # [Ev_dead 0 0])
             (w_session echo_funcs) = Returned EINTR"
    using t2 by (rule conjunct1 [OF conjunct2 [OF conjunct2 [OF conjunct2]]])
  then have 2: "sock_daemon_run [Ev_signal SIGHUP, Ev_signal SIGTERM, Ev_dead 0 0]
             (w_session echo_funcs) = Returned 4"
    by (simp add: EINTR_def)
  note rest = conjunct2 [OF conjunct2 [OF conjunct2 [OF conjunct2 [OF t2]]]]
  have l: "socket_list (w_session echo_funcs) =
      [\<lparr>ss_sockpath = ''/tmp/t.sock'', ss_funcs = echo_funcs, ss_fd = 3,
        ss_req = Some \<lparr>st_client_list =
                        [\<lparr>sc_id = 0, sc_client_ctx = Some \<lparr>cc_fd = 4, cc_comm = True\<rparr>\<rparr>],
                       st_accept = True\<rparr>\<rparr>]"
    "shutdown_callback (sockd (w_session echo_funcs)) = [Cb_shutdown]"
    "pidfile_release (sockd (w_session echo_funcs)) = [Free_pidfile ''/run/d.pid'']"
    "trace (w_session echo_funcs) = []"
    by (simp_all add: w_session_echo socket_list_def shutdown_callback_def pidfile_release_def
        all_funcs_def)
  have 3: "trace (sock_daemon_signal_handler SIGTERM (w_session echo_funcs)) =
       [D_NOTICE ''Received signal %d'', D_NOTICE ''Shutting down'', Free_comm 4, Sys_close 4,
        Free_client 0, Sys_close 3, Sys_unlink ''/tmp/t.sock'', Free_sock ''/tmp/t.sock'',
        Cb_shutdown, Free_pidfile ''/run/d.pid'']"
    using conjunct1 [OF rest]
    by (simp add: l listener_teardown_def registry_def session_teardown_def session_release_def)
  have 4: "socket_list (sock_daemon_signal_handler SIGTERM (w_session echo_funcs)) = []"
    using rest by blast
  have 5: "sd_pid_ctx (sockd (sock_daemon_signal_handler SIGTERM (w_session echo_funcs))) = None"
    using rest by blast
  have "open_fds (sock_daemon_signal_handler SIGTERM (w_session echo_funcs)) =
      open_fds (w_session echo_funcs)
      - (\<Union>sock \<in> set (socket_list (w_session echo_funcs)). listener_fds sock)"
    using rest by blast
  then have 6: "3 \<notin> open_fds (sock_daemon_signal_handler SIGTERM (w_session echo_funcs))"
    "4 \<notin> open_fds (sock_daemon_signal_handler SIGTERM (w_session echo_funcs))"
    by (simp_all add: l listener_fds_def registry_def session_fds_def)
  from a 1 2 3 4 5 6 show ?thesis
    by (intro conjI)
qed

subsection \<open>Reading and writing a listener's accept loop state\<close>

lemma sock_at_sockd: "sockd w' = sockd w \<Longrightarrow> sock_at i w' = sock_at i w"
  by (simp add: sock_at_def socket_list_def)

lemma state_at_sockd: "sockd w' = sockd w \<Longrightarrow> state_at i w' = state_at i w"
  by (simp add: state_at_def sock_at_def socket_list_def)

lemma client_list_at_sockd: "sockd w' = sockd w \<Longrightarrow> client_list_at i w' = client_list_at i w"
  by (simp add: client_list_at_def state_at_def sock_at_def socket_list_def)

lemma sock_at_simps [simp]:
  "sock_at i (emit a w) = sock_at i w"
  "sock_at i (sys_close fd w) = sock_at i w"
  "sock_at i (w\<lparr>open_fds := fds\<rparr>) = sock_at i w"
  "sock_at i (w\<lparr>next_id := n\<rparr>) = sock_at i w"
  "sock_at i (w\<lparr>trace := t\<rparr>) = sock_at i w"
  "sock_at i (w\<lparr>run_req := r\<rparr>) = sock_at i w"
  by (simp_all add: sock_at_def socket_list_def)

lemma state_at_simps [simp]:
  "state_at i (emit a w) = state_at i w"
  "state_at i (sys_close fd w) = state_at i w"
  "state_at i (w\<lparr>open_fds := fds\<rparr>) = state_at i w"
  "state_at i (w\<lparr>next_id := n\<rparr>) = state_at i w"
  "state_at i (w\<lparr>trace := t\<rparr>) = state_at i w"
  "state_at i (w\<lparr>run_req := r\<rparr>) = state_at i w"
  by (simp_all add: state_at_def)

lemma client_list_at_simps [simp]:
  "client_list_at i (emit a w) = client_list_at i w"
  "client_list_at i (sys_close fd w) = client_list_at i w"
  "client_list_at i (w\<lparr>open_fds := fds\<rparr>) = client_list_at i w"
  "client_list_at i (w\<lparr>next_id := n\<rparr>) = client_list_at i w"
  "client_list_at i (w\<lparr>trace := t\<rparr>) = client_list_at i w"
  "client_list_at i (w\<lparr>run_req := r\<rparr>) = client_list_at i w"
  by (simp_all add: client_list_at_def)

lemma set_state_at_fields [simp]:
  "run_req (set_state_at i st w) = run_req w" "pid_watch (set_state_at i st w) = pid_watch w"
  "open_fds (set_state_at i st w) = open_fds w" "next_id (set_state_at i st w) = next_id w"
  "trace (set_state_at i st w) = trace w"
  "sd_funcs (sockd (set_state_at i st w)) = sd_funcs (sockd w)"
  "sd_pid_ctx (sockd (set_state_at i st w)) = sd_pid_ctx (sockd w)"
  by (simp_all add: set_state_at_def set_socket_list_def split: option.splits)

lemma socket_list_set_state_at:
  "socket_list (set_state_at i st w) =
     (if i < length (socket_list w)
      then (socket_list w)[i := (socket_list w ! i)\<lparr>ss_req := st\<rparr>] else socket_list w)"
  by (simp add: set_state_at_def set_socket_list_def sock_at_def socket_list_def)

lemma length_socket_list_set_state_at [simp]:
  "length (socket_list (set_state_at i st w)) = length (socket_list w)"
  by (simp add: socket_list_set_state_at)

lemma sock_at_set_state_at:
  "sock_at j (set_state_at i st w) =
     (if j = i then map_option (\<lambda>sock. sock\<lparr>ss_req := st\<rparr>) (sock_at i w) else sock_at j w)"
  by (simp add: sock_at_def socket_list_set_state_at)

lemma state_at_set_state_at:
  "state_at j (set_state_at i st w) =
     (if j = i then (if i < length (socket_list w) then st else None) else state_at j w)"
  by (simp add: state_at_def sock_at_set_state_at) (simp add: sock_at_def)

lemma state_at_set_state_at_same [simp]:
  "state_at i w = Some st0 \<Longrightarrow> state_at i (set_state_at i st w) = st"
proof -
  assume "state_at i w = Some st0"
  then have "i < length (socket_list w)"
    by (auto simp: state_at_def sock_at_def split: if_splits)
  then show ?thesis
    by (simp add: state_at_set_state_at)
qed

lemma state_at_set_state_at_other [simp]:
  "j \<noteq> i \<Longrightarrow> state_at j (set_state_at i st w) = state_at j w"
  by (simp add: state_at_set_state_at)

lemma set_client_list_fields [simp]:
  "run_req (set_client_list i l w) = run_req w" "pid_watch (set_client_list i l w) = pid_watch w"
  "open_fds (set_client_list i l w) = open_fds w" "next_id (set_client_list i l w) = next_id w"
  "trace (set_client_list i l w) = trace w"
  "sd_funcs (sockd (set_client_list i l w)) = sd_funcs (sockd w)"
  "sd_pid_ctx (sockd (set_client_list i l w)) = sd_pid_ctx (sockd w)"
  by (simp_all add: set_client_list_def split: option.splits)

lemma state_at_set_client_list:
  "state_at j (set_client_list i l w) =
     (if j = i then map_option (\<lambda>st. st\<lparr>st_client_list := l\<rparr>) (state_at i w) else state_at j w)"
  by (auto simp: set_client_list_def split: option.splits)

lemma client_list_at_set_client_list:
  "client_list_at j (set_client_list i l w) =
     (if j = i \<and> state_at i w \<noteq> None then l else client_list_at j w)"
  by (auto simp: client_list_at_def state_at_set_client_list split: option.splits)

lemma sock_at_set_client_list:
  "sock_at j (set_client_list i l w) =
     (if j = i then map_option (\<lambda>sock. sock\<lparr>ss_req := map_option (\<lambda>st. st\<lparr>st_client_list := l\<rparr>) (ss_req sock)\<rparr>) (sock_at i w)
      else sock_at j w)"
  by (auto simp: set_client_list_def sock_at_set_state_at state_at_def split: option.splits)

lemma length_socket_list_set_client_list [simp]:
  "length (socket_list (set_client_list i l w)) = length (socket_list w)"
  by (simp add: set_client_list_def split: option.splits)

lemma set_state_at_twice [simp]:
  "set_state_at i a (set_state_at i b w) = set_state_at i a w"
  by (simp add: set_state_at_def sock_at_def set_socket_list_def socket_list_def)

lemma client_list_at_set_state_at_accept [simp]:
  "state_at i w = Some st \<Longrightarrow>
   client_list_at j (set_state_at i (Some (st\<lparr>st_accept := b\<rparr>)) w) = client_list_at j w"
  by (cases "j = i") (simp_all add: client_list_at_def)

lemma sock_at_set_state_at_same:
  "sock_at i w = Some sock \<Longrightarrow> sock_at i (set_state_at i st w) = Some (sock\<lparr>ss_req := st\<rparr>)"
  by (simp add: sock_at_set_state_at)

text \<open>
  C7. A connection is accepted on a running listener whose connect callback returns
  false for it (the callback is called only after the next accept was posted and the
  slot, the client context and the transport were set up). Then
  \<^verbatim>\<open>sock_client_context_init\<close> returns 0 after freeing the transport and closing the
  accepted descriptor. The handler surfaces no error: the request of the run and the
  accept loop stay in progress with the next accept posted. The descriptor is closed, and
  the sessions held by the registry are those it held before.
\<close>

theorem connect_rejected:
  assumes "sock_at i w = Some sock" and "state_at i w = Some st"
    and "connect (ss_funcs sock) = Some f" and "\<not> f (ae_client_fd ae)"
    and "ae_client_fd ae \<noteq> -1" and "ae_accept_send ae" and "ae_client_alloc ae"
    and "ae_ctx_alloc ae" and "ae_comm_setup ae = 0"
  shows "fst (sock_client_context_init ae sock (ae_client_fd ae) None w0) = 0
         \<and> trace (snd (snd (sock_client_context_init ae sock (ae_client_fd ae) None w0))) =
             trace w0 @ [Comm_setup (ae_client_fd ae), Cb_connect (ae_client_fd ae),
                         Free_comm (ae_client_fd ae), Sys_close (ae_client_fd ae)]
         \<and> trace (sock_socket_start_new_client ae i w) =
             trace w @ [Accept_send (ss_fd sock), Comm_setup (ae_client_fd ae),
                        Cb_connect (ae_client_fd ae), Free_comm (ae_client_fd ae),
                        Sys_close (ae_client_fd ae)]
         \<and> open_fds (sock_socket_start_new_client ae i w) = open_fds w - {ae_client_fd ae}
         \<and> run_req (sock_socket_start_new_client ae i w) = run_req w
         \<and> map_option st_accept (state_at i (sock_socket_start_new_client ae i w)) = Some True
         \<and> filter (\<lambda>x. sc_client_ctx x \<noteq> None)
              (client_list_at i (sock_socket_start_new_client ae i w)) =
            filter (\<lambda>x. sc_client_ctx x \<noteq> None) (client_list_at i w)"
proof -
  have init: "sock_client_context_init ae sock (ae_client_fd ae) r v =
      (0, r, sys_close (ae_client_fd ae) (emit (Free_comm (ae_client_fd ae))
               (emit (Cb_connect (ae_client_fd ae)) (emit (Comm_setup (ae_client_fd ae)) v))))"
    for r v
    using assms by (simp add: sock_client_context_init_def Let_def)
  have h: "sock_socket_start_new_client ae i w =
      set_client_list i (\<lparr>sc_id = next_id w, sc_client_ctx = None\<rparr> # client_list_at i w)
        (sys_close (ae_client_fd ae) (emit (Free_comm (ae_client_fd ae))
          (emit (Cb_connect (ae_client_fd ae)) (emit (Comm_setup (ae_client_fd ae))
            ((emit (Accept_send (ss_fd sock))
               (set_state_at i (Some (st\<lparr>st_accept := True\<rparr>))
                  (w\<lparr>open_fds := insert (ae_client_fd ae) (open_fds w)\<rparr>)))
             \<lparr>next_id := Suc (next_id w)\<rparr>)))))"
    using assms by (simp add: sock_socket_start_new_client_def init Let_def)
  show ?thesis
    using assms(2) by (simp add: init h state_at_set_client_list client_list_at_set_client_list)
qed

subsection \<open>What a handler leaves of a registry\<close>

lemma sockd_tevent_req_error [simp]: "sockd (tevent_req_error e w) = sockd w"
  by (simp add: tevent_req_error_def)

lemma state_at_shutdown [simp]: "state_at i (sock_daemon_shutdown w) = None"
  by (simp add: sock_daemon_shutdown_eq state_at_def sock_at_def socket_list_def)

lemma state_at_tevent_req_error [simp]: "state_at i (tevent_req_error e w) = state_at i w"
  by (rule state_at_sockd) simp

lemma client_list_at_tevent_req_error [simp]:
  "client_list_at i (tevent_req_error e w) = client_list_at i w"
  by (rule client_list_at_sockd) simp

lemma state_at_socket_fail:
  "state_at i (sock_daemon_socket_fail j rs w) = (if state_at j w = None then state_at i w else None)"
  by (simp add: sock_daemon_socket_fail_def Let_def split: option.splits)

lemma client_list_at_None: "state_at i w = None \<Longrightarrow> client_list_at i w = []"
  by (simp add: client_list_at_def)

lemma keeps_sockd: "sockd w' = sockd w \<Longrightarrow> keeps i x w' = keeps i x w"
  by (simp add: keeps_def state_at_sockd [of w' w] client_list_at_sockd [of w' w])

lemma keeps_started: "keeps i x w \<Longrightarrow> keeps i x (sock_daemon_started w)"
  by (simp add: keeps_def sock_daemon_started_def Let_def split: option.splits)

lemma keeps_signal: "keeps i x w \<Longrightarrow> keeps i x (sock_daemon_signal_handler signum w)"
  by (simp add: keeps_def sock_daemon_signal_handler_def sock_daemon_reconfigure_def Let_def
      split: option.splits)

lemma keeps_watch_pid: "keeps i x w \<Longrightarrow> keeps i x (sock_daemon_watch_pid we w)"
  by (simp add: keeps_def sock_daemon_watch_pid_def Let_def)

lemma keeps_emit [simp]: "keeps i x (emit a w) = keeps i x w"
  by (simp add: keeps_def)

lemma socket_fail_None: "state_at j w = None \<Longrightarrow> sock_daemon_socket_fail j rs w = w"
  by (simp add: sock_daemon_socket_fail_def)

lemma keeps_socket_fail: "keeps i x w \<Longrightarrow> keeps i x (sock_daemon_socket_fail j rs w)"
proof (cases "state_at j w")
  case None
  assume "keeps i x w"
  with None show ?thesis by (simp add: socket_fail_None)
next
  case (Some st)
  then show ?thesis by (simp add: keeps_def state_at_socket_fail)
qed

lemma talloc_free_client_ctx_eq:
  "talloc_free_client_ctx j client cc w =
     set_client_list j (remove1 client (client_list_at j w))
       (w\<lparr>open_fds := open_fds w - (if cc_fd cc \<noteq> -1 then {cc_fd cc} else {}),
          trace := trace w @ Free_client (sc_id client) # session_release cc\<rparr>)"
  by (simp add: talloc_free_client_ctx_def sock_client_context_destructor_def
      sock_socket_start_client_destructor_nested_def session_release_def emit_def
      sys_close_def Let_def)

lemma keeps_talloc_free_client_ctx:
  assumes "keeps i x w" and "sc_client_ctx x = None" and "sc_client_ctx client \<noteq> None"
  shows "keeps i x (talloc_free_client_ctx j client cc w)"
proof -
  have "x \<noteq> client"
    using assms(2,3) by auto
  then have "x \<in> set l \<Longrightarrow> x \<in> set (remove1 client l)" for l
    by simp
  then show ?thesis
    using assms(1)
    by (auto simp: keeps_def talloc_free_client_ctx_eq state_at_set_client_list
        client_list_at_set_client_list)
qed

lemma live_session_ctx:
  "live_session j c w = Some (sock, client, cc) \<Longrightarrow> sc_client_ctx client = Some cc"
  by (auto simp: live_session_def split: option.splits)

lemma keeps_dead:
  assumes "keeps i x w" and "sc_client_ctx x = None"
  shows "keeps i x (sock_client_dead_handler j c w)"
proof (cases "live_session j c w")
  case None
  with assms(1) show ?thesis by (simp add: sock_client_dead_handler_def)
next
  case (Some t)
  obtain sock client cc where t: "t = (sock, client, cc)"
    by (cases t)
  have "sc_client_ctx client \<noteq> None"
    using Some t live_session_ctx by fastforce
  then have "keeps i x (talloc_free_client_ctx j client cc v)" if "keeps i x v" for v
    using that assms(2) by (intro keeps_talloc_free_client_ctx)
  with assms(1) Some t show ?thesis
    by (simp add: sock_client_dead_handler_def split: option.splits)
qed

lemma keeps_read_handler:
  assumes "keeps i x w" and "sc_client_ctx x = None"
    and "sock_client_read_handler buf j c w = Some w'"
  shows "keeps i x w'"
proof (cases "live_session j c w")
  case None
  with assms(1,3) show ?thesis by (simp add: sock_client_read_handler_def)
next
  case (Some t)
  obtain sock client cc where t: "t = (sock, client, cc)"
    by (cases t)
  have "sc_client_ctx client \<noteq> None"
    using Some t live_session_ctx by fastforce
  then have "keeps i x (talloc_free_client_ctx j client cc v)" if "keeps i x v" for v
    using that assms(2) by (intro keeps_talloc_free_client_ctx)
  with assms(1,3) Some t show ?thesis
    by (auto simp: sock_client_read_handler_def Let_def split: option.splits if_splits)
qed

lemma keeps_read_done:
  assumes "keeps i x w" and "sc_client_ctx x = None"
    and "sock_client_read_done j c w = Some w'"
  shows "keeps i x w'"
proof (cases "live_session j c w")
  case None
  with assms(1,3) show ?thesis by (simp add: sock_client_read_done_def)
next
  case (Some t)
  obtain sock client cc where t: "t = (sock, client, cc)"
    by (cases t)
  have "sc_client_ctx client \<noteq> None"
    using Some t live_session_ctx by fastforce
  then have "keeps i x (talloc_free_client_ctx j client cc v)" if "keeps i x v" for v
    using that assms(2) by (intro keeps_talloc_free_client_ctx)
  with assms(1,3) Some t show ?thesis
    by (auto simp: sock_client_read_done_def Let_def split: option.splits if_splits)
qed

lemma keeps_simps [simp]:
  "keeps i x (sys_close fd w) = keeps i x w"
  "keeps i x (w\<lparr>open_fds := fds\<rparr>) = keeps i x w"
  "keeps i x (w\<lparr>next_id := n\<rparr>) = keeps i x w"
  "keeps i x (w\<lparr>run_req := r\<rparr>) = keeps i x w"
  by (simp_all add: keeps_def)

lemma keeps_set_state_at:
  assumes "state_at j w = Some st0" and "st_client_list st = st_client_list st0"
  shows "keeps i x (set_state_at j (Some st) w) = keeps i x w"
proof (cases "i = j")
  case True
  with assms show ?thesis
    by (simp add: keeps_def client_list_at_def)
next
  case False
  then show ?thesis
    by (simp add: keeps_def client_list_at_def)
qed

lemma keeps_set_client_list_Cons:
  "keeps i x w \<Longrightarrow> keeps i x (set_client_list j (c # client_list_at j w) w)"
  by (auto simp: keeps_def state_at_set_client_list client_list_at_set_client_list)

lemma sockd_client_context_init:
  "sockd (snd (snd (sock_client_context_init ae sock fd r w))) = sockd w"
  by (simp add: sock_client_context_init_def Let_def split: option.splits)

lemma keeps_client_context_init:
  "keeps i x (snd (snd (sock_client_context_init ae sock fd r w))) = keeps i x w"
  by (rule keeps_sockd) (rule sockd_client_context_init)

lemma keeps_accept:
  assumes k: "keeps i x w"
  shows "keeps i x (sock_socket_start_new_client ae j w)"
proof (cases "sock_at j w")
  case None
  with k show ?thesis
    by (simp add: sock_socket_start_new_client_def)
next
  case sock: (Some sock)
  show ?thesis
  proof (cases "state_at j w")
    case None
    with k sock show ?thesis
      by (simp add: sock_socket_start_new_client_def)
  next
    case st: (Some st)
    define fd where "fd = ae_client_fd ae"
    define w0 where "w0 = set_state_at j (Some (st\<lparr>st_accept := False\<rparr>))
        (if fd = -1 then w else w\<lparr>open_fds := insert fd (open_fds w)\<rparr>)"
    define w1 where "w1 = (if fd = -1 then emit (D_ERR ''failed to accept new connection'') w0 else w0)"
    define w2 where "w2 = emit (Accept_send (ss_fd sock)) (set_state_at j (Some (st\<lparr>st_accept := True\<rparr>)) w1)"
    define w3 where "w3 = w2\<lparr>next_id := Suc (next_id w2)\<rparr>"
    have s0: "state_at j w0 = Some (st\<lparr>st_accept := False\<rparr>)"
      using st by (simp add: w0_def)
    have k0: "keeps i x w0"
      using k st by (simp add: w0_def keeps_set_state_at)
    have s1: "state_at j w1 = Some (st\<lparr>st_accept := False\<rparr>)"
      using s0 by (simp add: w1_def)
    have k1: "keeps i x w1"
      using k0 by (simp add: w1_def)
    have k2: "keeps i x w2"
      using k1 s1 by (simp add: w2_def keeps_set_state_at)
    have k3: "keeps i x w3"
      using k2 by (simp add: w3_def)
    have oom1: "keeps i x (tevent_req_oom j w1)"
      using k1 by (simp add: tevent_req_oom_def keeps_socket_fail)
    have oom2: "keeps i x (sys_close fd (tevent_req_oom j w2))"
      using k2 by (simp add: tevent_req_oom_def keeps_socket_fail)
    obtain ret result w4
      where init: "sock_client_context_init ae sock fd None w3 = (ret, result, w4)"
      by (cases "sock_client_context_init ae sock fd None w3")
    have k4: "keeps i x w4"
      using k3 keeps_client_context_init [of i x ae sock fd None w3] init by simp
    have k5: "keeps i x (set_client_list j (c # client_list_at j w4) w4)" for c
      using k4 by (rule keeps_set_client_list_Cons)
    have "sock_socket_start_new_client ae j w =
        (if \<not> ae_accept_send ae then tevent_req_oom j w1
         else if fd = -1 then w2
         else if \<not> ae_client_alloc ae then sys_close fd (tevent_req_oom j w2)
         else if ret \<noteq> 0 then emit (Free_client (next_id w2)) w4
         else set_client_list j (\<lparr>sc_id = next_id w2, sc_client_ctx = result\<rparr> # client_list_at j w4) w4)"
    proof (cases "fd = -1")
      case True
      with sock st show ?thesis
        by (simp add: sock_socket_start_new_client_def Let_def fd_def w0_def w1_def w2_def)
    next
      case False
      with sock st init show ?thesis
        by (simp add: sock_socket_start_new_client_def Let_def fd_def w0_def w1_def w2_def
            w3_def)
    qed
    then show ?thesis
      using oom1 oom2 k2 k4 k5 by simp
  qed
qed

lemma keeps_dispatch:
  assumes "keeps i x w" and "sc_client_ctx x = None" and "dispatch e w = Some w'"
  shows "keeps i x w'"
  using assms
  by (cases e)
     (auto simp: keeps_started keeps_signal keeps_accept keeps_watch_pid keeps_dead
        intro: keeps_read_handler keeps_read_done)

lemma keeps_poll:
  assumes "keeps i x w" and "sc_client_ctx x = None" and "tevent_req_poll es w = Some w'"
  shows "keeps i x w'"
  using assms
proof (induction es arbitrary: w)
  case Nil
  then show ?case by simp
next
  case (Cons e es)
  show ?case
  proof (cases "run_req w = TEVENT_REQ_IN_PROGRESS")
    case True
    with Cons.prems(3) obtain w1 where d: "dispatch e w = Some w1"
      and p: "tevent_req_poll es w1 = Some w'"
      by (auto split: option.splits)
    have "keeps i x w1"
      using Cons.prems(1,2) d by (rule keeps_dispatch)
    then show ?thesis
      using Cons.prems(2) p by (rule Cons.IH)
  next
    case False
    with Cons.prems show ?thesis by simp
  qed
qed

lemma w_one_eq:
  "read_send funcs \<noteq> None \<Longrightarrow> read_recv funcs \<noteq> None \<Longrightarrow>
   w_one funcs =
     \<lparr>sockd = \<lparr>sd_funcs = Some all_funcs, sd_pid_ctx = Some ''/run/d.pid'',
               sd_socket_list =
                 [\<lparr>ss_sockpath = ''/tmp/t.sock'', ss_funcs = funcs, ss_fd = 3,
                   ss_req = Some \<lparr>st_client_list = [], st_accept = True\<rparr>\<rparr>]\<rparr>,
      run_req = TEVENT_REQ_IN_PROGRESS, pid_watch = 0, open_fds = {0, 1, 2, 3},
      next_id = 0, trace = []\<rparr>"
  by (auto simp: w_one_def w_setup_def start_all_def sock_daemon_add_unix_def
      sock_socket_init_def socket_setup_def env_ok_def socket_list_def
      set_socket_list_def emit_def Let_def)

lemma sock_at_w_one:
  "read_send funcs \<noteq> None \<Longrightarrow> read_recv funcs \<noteq> None \<Longrightarrow>
   sock_at 0 (w_one funcs) =
     Some \<lparr>ss_sockpath = ''/tmp/t.sock'', ss_funcs = funcs, ss_fd = 3,
           ss_req = Some \<lparr>st_client_list = [], st_accept = True\<rparr>\<rparr>"
  by (simp add: w_one_eq sock_at_def socket_list_def)

lemma state_at_w_one:
  "read_send funcs \<noteq> None \<Longrightarrow> read_recv funcs \<noteq> None \<Longrightarrow>
   state_at 0 (w_one funcs) = Some \<lparr>st_client_list = [], st_accept = True\<rparr>"
  by (simp add: state_at_def sock_at_w_one)

theorem connect_rejected_witness:
  "sock_at 0 (w_one reject_funcs) =
     Some \<lparr>ss_sockpath = ''/tmp/t.sock'', ss_funcs = reject_funcs, ss_fd = 3,
           ss_req = Some \<lparr>st_client_list = [], st_accept = True\<rparr>\<rparr>
   \<and> trace (sock_socket_start_new_client (accept_ok 4) 0 (w_one reject_funcs)) =
       [Accept_send 3, Comm_setup 4, Cb_connect 4, Free_comm 4, Sys_close 4]
   \<and> open_fds (sock_socket_start_new_client (accept_ok 4) 0 (w_one reject_funcs)) = {0, 1, 2, 3}
   \<and> run_req (sock_socket_start_new_client (accept_ok 4) 0 (w_one reject_funcs)) =
       TEVENT_REQ_IN_PROGRESS
   \<and> filter (\<lambda>x. sc_client_ctx x \<noteq> None)
        (client_list_at 0 (sock_socket_start_new_client (accept_ok 4) 0 (w_one reject_funcs))) = []"
proof -
  let ?sock = "\<lparr>ss_sockpath = ''/tmp/t.sock'', ss_funcs = reject_funcs, ss_fd = 3,
                ss_req = Some \<lparr>st_client_list = [], st_accept = True\<rparr>\<rparr>"
  have v: "read_send reject_funcs \<noteq> None" "read_recv reject_funcs \<noteq> None"
    by (simp_all add: reject_funcs_def)
  have a: "sock_at 0 (w_one reject_funcs) = Some ?sock"
    using v by (rule sock_at_w_one)
  have b: "state_at 0 (w_one reject_funcs) = Some \<lparr>st_client_list = [], st_accept = True\<rparr>"
    using v by (rule state_at_w_one)
  have c: "connect (ss_funcs ?sock) = Some (\<lambda>fd. False)"
    by (simp add: reject_funcs_def)
  have d: "\<not> (\<lambda>fd. False) (ae_client_fd (accept_ok 4))"
    by simp
  have e: "ae_client_fd (accept_ok 4) \<noteq> -1" "ae_accept_send (accept_ok 4)"
    "ae_client_alloc (accept_ok 4)" "ae_ctx_alloc (accept_ok 4)" "ae_comm_setup (accept_ok 4) = 0"
    by (simp_all add: accept_ok_def)
  have f: "ae_client_fd (accept_ok 4) = 4"
    by (simp add: accept_ok_def)
  have g: "open_fds (w_one reject_funcs) - {4} = {0, 1, 2, 3}"
    using v by (auto simp: w_one_eq)
  have h: "client_list_at 0 (w_one reject_funcs) = []" "trace (w_one reject_funcs) = []"
    "run_req (w_one reject_funcs) = TEVENT_REQ_IN_PROGRESS"
    using v b by (simp_all add: client_list_at_def w_one_eq)
  show ?thesis
    using connect_rejected [OF a b c d e, of "w_one reject_funcs"] a
    by (simp add: f g h)
qed

subsection \<open>The accept loop request running out of memory\<close>

lemma tevent_req_oom_eq:
  "state_at i w = Some st \<Longrightarrow>
   tevent_req_oom i w =
     sock_daemon_shutdown
       ((talloc_free_req (Some st) (set_state_at i None w))
          \<lparr>run_req := TEVENT_REQ_USER_ERROR ENOMEM\<rparr>)"
  by (simp add: tevent_req_oom_def sock_daemon_socket_fail_def tevent_req_error_def
      ENOMEM_def Let_def)

lemma shutdown_fields [simp]:
  "run_req (sock_daemon_shutdown w) = run_req w"
  "socket_list (sock_daemon_shutdown w) = []"
  "next_id (sock_daemon_shutdown w) = next_id w"
  by (simp_all add: sock_daemon_shutdown_eq socket_list_def)

lemma open_fds_shutdown: "open_fds (sock_daemon_shutdown w) \<subseteq> open_fds w"
  by (auto simp: sock_daemon_shutdown_eq)


lemma open_fds_tevent_req_oom:
  assumes "state_at i w = Some st"
  shows "open_fds (tevent_req_oom i w) \<subseteq> open_fds w"
proof -
  have "open_fds (talloc_free_req (Some st) (set_state_at i None w)) \<subseteq> open_fds w"
    by (auto simp: talloc_free_req)
  then show ?thesis
    using assms open_fds_shutdown by (fastforce simp: tevent_req_oom_eq)
qed

lemma free_client_in_teardown:
  "x \<in> set l \<Longrightarrow> Free_client (sc_id x) \<in> set (concat (map session_teardown l))"
  by (auto simp: session_teardown_def intro!: bexI [of _ x])

text \<open>
  C10. When the connect callback returns false, \<^verbatim>\<open>sock_client_context_init\<close>
  returns 0 and what \<^verbatim>\<open>result\<close> points to is what it was before the call. The accept
  handler goes on as after a success: the slot, whose client context pointer is still
  NULL, is put at the head of the registry. Whatever events the loop delivers afterwards,
  the slot is still in the registry unless the accept loop state of the listener has been
  destroyed; destroying an accept loop state whose registry holds the slot frees the slot.
\<close>

theorem rejected_slot_stays:
  assumes "sock_at i w = Some sock" and "state_at i w = Some st"
    and "connect (ss_funcs sock) = Some f" and "\<not> f (ae_client_fd ae)"
    and "ae_client_fd ae \<noteq> -1" and "ae_accept_send ae" and "ae_client_alloc ae"
    and "ae_ctx_alloc ae" and "ae_comm_setup ae = 0"
  shows "fst (sock_client_context_init ae sock (ae_client_fd ae) r w0) = 0
         \<and> fst (snd (sock_client_context_init ae sock (ae_client_fd ae) r w0)) = r
         \<and> client_list_at i (sock_socket_start_new_client ae i w) =
             \<lparr>sc_id = next_id w, sc_client_ctx = None\<rparr> # client_list_at i w
         \<and> (\<forall>es w'. tevent_req_poll es (sock_socket_start_new_client ae i w) = Some w' \<longrightarrow>
               state_at i w' = None
               \<or> \<lparr>sc_id = next_id w, sc_client_ctx = None\<rparr> \<in> set (client_list_at i w'))
         \<and> (\<forall>st' v. \<lparr>sc_id = next_id w, sc_client_ctx = None\<rparr> \<in> set (st_client_list st') \<longrightarrow>
               Free_client (next_id w) \<in> set (trace (talloc_free_req (Some st') v)))"
proof -
  let ?slot = "\<lparr>sc_id = next_id w, sc_client_ctx = None\<rparr>"
  let ?w' = "sock_socket_start_new_client ae i w"
  have init: "sock_client_context_init ae sock (ae_client_fd ae) r v =
      (0, r, sys_close (ae_client_fd ae) (emit (Free_comm (ae_client_fd ae))
               (emit (Cb_connect (ae_client_fd ae)) (emit (Comm_setup (ae_client_fd ae)) v))))"
    for r v
    using assms by (simp add: sock_client_context_init_def Let_def)
  have h: "?w' =
      set_client_list i (?slot # client_list_at i w)
        (sys_close (ae_client_fd ae) (emit (Free_comm (ae_client_fd ae))
          (emit (Cb_connect (ae_client_fd ae)) (emit (Comm_setup (ae_client_fd ae))
            ((emit (Accept_send (ss_fd sock))
               (set_state_at i (Some (st\<lparr>st_accept := True\<rparr>))
                  (w\<lparr>open_fds := insert (ae_client_fd ae) (open_fds w)\<rparr>)))
             \<lparr>next_id := Suc (next_id w)\<rparr>)))))"
    using assms by (simp add: sock_socket_start_new_client_def init Let_def)
  have l: "client_list_at i ?w' = ?slot # client_list_at i w"
    using assms(2) by (simp add: h client_list_at_set_client_list)
  then have k: "keeps i ?slot ?w'"
    by (simp add: keeps_def)
  have p: "state_at i w' = None \<or> ?slot \<in> set (client_list_at i w')"
    if "tevent_req_poll es ?w' = Some w'" for es w'
    using keeps_poll [OF k _ that] by (simp add: keeps_def)
  have t: "Free_client (next_id w) \<in> set (trace (talloc_free_req (Some st') v))"
    if "?slot \<in> set (st_client_list st')" for st' v
    using free_client_in_teardown [OF that] by (simp add: talloc_free_req)
  show ?thesis
    using l p t by (simp add: init)
qed

theorem rejected_slot_stays_witness:
  "client_list_at 0 (sock_socket_start_new_client (accept_ok 4) 0 (w_one reject_funcs)) =
     [\<lparr>sc_id = 0, sc_client_ctx = None\<rparr>]
   \<and> (\<exists>w'. tevent_req_poll [Ev_accept (accept_ok 5) 0, Ev_signal SIGHUP, Ev_dead 0 1]
              (sock_socket_start_new_client (accept_ok 4) 0 (w_one reject_funcs)) = Some w'
          \<and> (state_at 0 w' = None
              \<or> \<lparr>sc_id = 0, sc_client_ctx = None\<rparr> \<in> set (client_list_at 0 w')))
   \<and> Free_client 0 \<in> set (trace (talloc_free_req
         (Some \<lparr>st_client_list = [\<lparr>sc_id = 0, sc_client_ctx = None\<rparr>], st_accept = True\<rparr>)
         (w_one reject_funcs)))"
proof -
  let ?sock = "\<lparr>ss_sockpath = ''/tmp/t.sock'', ss_funcs = reject_funcs, ss_fd = 3,
                ss_req = Some \<lparr>st_client_list = [], st_accept = True\<rparr>\<rparr>"
  let ?w' = "sock_socket_start_new_client (accept_ok 4) 0 (w_one reject_funcs)"
  let ?es = "[Ev_accept (accept_ok 5) 0, Ev_signal SIGHUP, Ev_dead 0 1]"
  have v: "read_send reject_funcs \<noteq> None" "read_recv reject_funcs \<noteq> None"
    by (simp_all add: reject_funcs_def)
  have a: "sock_at 0 (w_one reject_funcs) = Some ?sock"
    using v by (rule sock_at_w_one)
  have b: "state_at 0 (w_one reject_funcs) = Some \<lparr>st_client_list = [], st_accept = True\<rparr>"
    using v by (rule state_at_w_one)
  have c: "connect (ss_funcs ?sock) = Some (\<lambda>fd. False)"
    by (simp add: reject_funcs_def)
  have d: "\<not> (\<lambda>fd. False) (ae_client_fd (accept_ok 4))"
    by simp
  have e: "ae_client_fd (accept_ok 4) \<noteq> -1" "ae_accept_send (accept_ok 4)"
    "ae_client_alloc (accept_ok 4)" "ae_ctx_alloc (accept_ok 4)" "ae_comm_setup (accept_ok 4) = 0"
    by (simp_all add: accept_ok_def)
  have h: "client_list_at 0 (w_one reject_funcs) = []" "next_id (w_one reject_funcs) = 0"
    using v b by (simp_all add: client_list_at_def w_one_eq)
  note t = rejected_slot_stays [OF a b c d e, of None "w_one reject_funcs", unfolded h]
  obtain w' where p: "tevent_req_poll ?es ?w' = Some w'"
    by (cases "tevent_req_poll ?es ?w'") (simp_all split: if_splits)
  have 1: "client_list_at 0 ?w' = [\<lparr>sc_id = 0, sc_client_ctx = None\<rparr>]"
    using t by blast
  have 2: "state_at 0 w' = None \<or> \<lparr>sc_id = 0, sc_client_ctx = None\<rparr> \<in> set (client_list_at 0 w')"
    using t p by blast
  have 3: "Free_client 0 \<in> set (trace (talloc_free_req
         (Some \<lparr>st_client_list = [\<lparr>sc_id = 0, sc_client_ctx = None\<rparr>], st_accept = True\<rparr>)
         (w_one reject_funcs)))"
    using t by simp
  from 1 2 3 p show ?thesis
    by blast
qed

subsection \<open>A completed accept\<close>

lemma sock_at_w_session:
  "sock_at 0 (w_session echo_funcs) =
     Some \<lparr>ss_sockpath = ''/tmp/t.sock'', ss_funcs = echo_funcs, ss_fd = 3,
           ss_req = Some \<lparr>st_client_list =
                         [\<lparr>sc_id = 0, sc_client_ctx = Some \<lparr>cc_fd = 4, cc_comm = True\<rparr>\<rparr>],
                        st_accept = True\<rparr>\<rparr>"
  by (simp add: w_session_echo sock_at_def socket_list_def)

lemma state_at_w_session:
  "state_at 0 (w_session echo_funcs) =
     Some \<lparr>st_client_list = [\<lparr>sc_id = 0, sc_client_ctx = Some \<lparr>cc_fd = 4, cc_comm = True\<rparr>\<rparr>],
           st_accept = True\<rparr>"
  by (simp add: state_at_def sock_at_w_session)







subsection \<open>The end of a session\<close>

lemma disconnects_append [simp]: "disconnects (xs @ ys) = disconnects xs @ disconnects ys"
  by (induction xs rule: disconnects.induct) simp_all

lemma disconnects_session_release [simp]: "disconnects (session_release cc) = []"
  by (simp add: session_release_def)

lemma disconnects_session_teardown [simp]: "disconnects (session_teardown x) = []"
  by (simp add: session_teardown_def split: option.splits)

lemma disconnects_teardowns [simp]: "disconnects (concat (map session_teardown l)) = []"
  by (induction l) simp_all

lemma live_session_state:
  "live_session i c w = Some (sock, client, cc) \<Longrightarrow>
   sock_at i w = Some sock \<and> state_at i w \<noteq> None \<and> client \<in> set (client_list_at i w)
   \<and> sc_client_ctx client = Some cc"
  by (auto simp: live_session_def client_list_at_def find_Some_iff split: option.splits)

lemma talloc_free_client_ctx_fields:
  assumes "state_at i w \<noteq> None"
  shows "trace (talloc_free_client_ctx i client cc w) =
           trace w @ Free_client (sc_id client) # session_release cc"
    and "open_fds (talloc_free_client_ctx i client cc w) =
           open_fds w - (if cc_fd cc \<noteq> -1 then {cc_fd cc} else {})"
    and "client_list_at i (talloc_free_client_ctx i client cc w) =
           remove1 client (client_list_at i w)"
    and "run_req (talloc_free_client_ctx i client cc w) = run_req w"
  using assms
  by (simp_all add: talloc_free_client_ctx_eq client_list_at_set_client_list)

text \<open>
  C1, as the claim states it, fails. A connection passes the connect callback of a
  listener that defines a disconnect callback. When \<^verbatim>\<open>read_recv\<close> then reports a
  failure, the session is destroyed (slot freed, transport freed, descriptor closed)
  and the disconnect callback is never called; the same holds when the listener is torn
  down by a shutdown.
\<close>

theorem disconnect_once_counterexample:
  "disconnect echo_funcs \<noteq> None
   \<and> map_option trace
       (sock_client_read_done 0 0 (sock_socket_start_new_client (accept_ok 4) 0 (w_one echo_funcs)))
     = Some [Accept_send 3, Comm_setup 4, Cb_connect 4, Cb_read_recv 4,
             D_ERR ''client read failed with ret=%d'', Free_client 0, Free_comm 4, Sys_close 4]
   \<and> trace (sock_daemon_shutdown
              (sock_socket_start_new_client (accept_ok 4) 0 (w_one echo_funcs)))
     = [Accept_send 3, Comm_setup 4, Cb_connect 4, D_NOTICE ''Shutting down'',
        Free_comm 4, Sys_close 4, Free_client 0, Sys_close 3, Sys_unlink ''/tmp/t.sock'',
        Free_sock ''/tmp/t.sock'', Cb_shutdown, Free_pidfile ''/run/d.pid'']"
proof -
  let ?w = "sock_socket_start_new_client (accept_ok 4) 0 (w_one echo_funcs)"
  have w: "?w = (w_session echo_funcs)\<lparr>trace := [Accept_send 3, Comm_setup 4, Cb_connect 4]\<rparr>"
    by (simp add: w_session_echo)
       (auto simp: w_one_eq echo_funcs_def accept_ok_def
          sock_socket_start_new_client_def sock_client_context_init_def sock_at_def state_at_def
          set_state_at_def set_client_list_def client_list_at_def socket_list_def
          set_socket_list_def emit_def Let_def)
  have l: "live_session 0 0 ?w =
      Some (\<lparr>ss_sockpath = ''/tmp/t.sock'', ss_funcs = echo_funcs, ss_fd = 3,
             ss_req = Some \<lparr>st_client_list =
                         [\<lparr>sc_id = 0, sc_client_ctx = Some \<lparr>cc_fd = 4, cc_comm = True\<rparr>\<rparr>],
                        st_accept = True\<rparr>\<rparr>,
            \<lparr>sc_id = 0, sc_client_ctx = Some \<lparr>cc_fd = 4, cc_comm = True\<rparr>\<rparr>,
            \<lparr>cc_fd = 4, cc_comm = True\<rparr>)"
    by (simp add: w live_session_def client_list_at_def state_at_w_session sock_at_w_session)
  have s: "state_at 0 ?w \<noteq> None"
    by (simp add: w state_at_w_session)
  have 1: "disconnect echo_funcs \<noteq> None"
    by (simp add: echo_funcs_def)
  have t: "trace ?w = [Accept_send 3, Comm_setup 4, Cb_connect 4]"
    by (simp add: w)
  have r: "read_recv echo_funcs = Some (\<lambda>fd. (False, 5))"
    by (simp add: echo_funcs_def)
  have 2: "map_option trace (sock_client_read_done 0 0 ?w) =
      Some [Accept_send 3, Comm_setup 4, Cb_connect 4, Cb_read_recv 4,
            D_ERR ''client read failed with ret=%d'', Free_client 0, Free_comm 4, Sys_close 4]"
    using s by (simp add: sock_client_read_done_def l r Let_def talloc_free_client_ctx_fields
        t session_release_def)
  have 3: "trace (sock_daemon_shutdown ?w) =
      [Accept_send 3, Comm_setup 4, Cb_connect 4, D_NOTICE ''Shutting down'',
       Free_comm 4, Sys_close 4, Free_client 0, Sys_close 3, Sys_unlink ''/tmp/t.sock'',
       Free_sock ''/tmp/t.sock'', Cb_shutdown, Free_pidfile ''/run/d.pid'']"
    by (simp add: w sock_daemon_shutdown_eq)
       (simp add: w_session_echo socket_list_def listener_teardown_def registry_def
          session_teardown_def session_release_def shutdown_callback_def pidfile_release_def
          all_funcs_def)
  from 1 2 3 show ?thesis
    by (intro conjI)
qed

lemma disconnects_listener_teardown [simp]: "disconnects (listener_teardown sock) = []"
  by (simp add: listener_teardown_def)

lemma disconnects_listener_teardowns [simp]:
  "disconnects (concat (map listener_teardown l)) = []"
  by (induction l) simp_all

lemma disconnects_shutdown:
  "disconnects (trace (sock_daemon_shutdown w)) = disconnects (trace w)"
  by (simp add: sock_daemon_shutdown_eq shutdown_callback_def pidfile_release_def
      split: option.splits)

text \<open>
  C1, amended. Every session held by a registry passed the connect callback, when the
  listener has one. When the peer dies, the handler calls the listener's disconnect
  callback once, when it is defined, and only then are the session's resources released:
  the slot is freed and leaves the registry, the transport is freed, the descriptor is
  closed. When the application's \<^verbatim>\<open>read_send\<close> returns no request, when its
  \<^verbatim>\<open>read_recv\<close> reports a failure, or when the accept loop state of the listener is
  destroyed (as the shutdown sequence does), the same resources are released and the
  disconnect callback is not called.
\<close>

theorem disconnect_on_dead_only:
  assumes "live_session i c w = Some (sock, client, cc)"
  shows "trace (sock_client_dead_handler i c w) =
           trace w
           @ (case disconnect (ss_funcs sock) of None \<Rightarrow> [] | Some f \<Rightarrow> [Cb_disconnect (cc_fd cc)])
           @ Free_client (sc_id client) # session_release cc
         \<and> disconnects (trace (sock_client_dead_handler i c w)) =
             disconnects (trace w)
             @ (case disconnect (ss_funcs sock) of None \<Rightarrow> [] | Some f \<Rightarrow> [cc_fd cc])
         \<and> client_list_at i (sock_client_dead_handler i c w) = remove1 client (client_list_at i w)
         \<and> (\<forall>g. read_recv (ss_funcs sock) = Some g \<and> \<not> fst (g (cc_fd cc)) \<longrightarrow>
               (\<exists>w'. sock_client_read_done i c w = Some w'
                  \<and> trace w' = trace w @ [Cb_read_recv (cc_fd cc),
                                          D_ERR ''client read failed with ret=%d'',
                                          Free_client (sc_id client)] @ session_release cc
                  \<and> disconnects (trace w') = disconnects (trace w)
                  \<and> client_list_at i w' = remove1 client (client_list_at i w)))
         \<and> (\<forall>h. read_send (ss_funcs sock) = Some h \<and> \<not> h (cc_fd cc) buf \<longrightarrow>
               (\<exists>w'. sock_client_read_handler buf i c w = Some w'
                  \<and> trace w' = trace w @ [Cb_read_send (cc_fd cc), Free_client (sc_id client)]
                                @ session_release cc
                  \<and> disconnects (trace w') = disconnects (trace w)
                  \<and> client_list_at i w' = remove1 client (client_list_at i w)))
         \<and> trace (talloc_free_req (state_at i w) w) =
             trace w @ concat (map session_teardown (client_list_at i w))
         \<and> set (session_teardown client) \<subseteq> set (concat (map session_teardown (client_list_at i w)))
         \<and> disconnects (trace (talloc_free_req (state_at i w) w)) = disconnects (trace w)
         \<and> disconnects (trace (sock_daemon_shutdown w)) = disconnects (trace w)"
proof -
  from assms have s: "state_at i w \<noteq> None" and m: "client \<in> set (client_list_at i w)"
    by (simp_all add: live_session_state)
  have se: "state_at i (emit a w) \<noteq> None" for a
    using s by simp
  have see: "state_at i (emit a (emit b w)) \<noteq> None" for a b
    using s by simp
  have dead: "sock_client_dead_handler i c w =
      talloc_free_client_ctx i client cc
        (case disconnect (ss_funcs sock) of None \<Rightarrow> w | Some f \<Rightarrow> emit (Cb_disconnect (cc_fd cc)) w)"
    using assms by (simp add: sock_client_dead_handler_def)
  have d1: "trace (sock_client_dead_handler i c w) =
           trace w
           @ (case disconnect (ss_funcs sock) of None \<Rightarrow> [] | Some f \<Rightarrow> [Cb_disconnect (cc_fd cc)])
           @ Free_client (sc_id client) # session_release cc"
    using s by (cases "disconnect (ss_funcs sock)")
      (simp_all add: dead talloc_free_client_ctx_fields)
  have d2: "disconnects (trace (sock_client_dead_handler i c w)) =
             disconnects (trace w)
             @ (case disconnect (ss_funcs sock) of None \<Rightarrow> [] | Some f \<Rightarrow> [cc_fd cc])"
    by (cases "disconnect (ss_funcs sock)") (simp_all add: d1)
  have d3: "client_list_at i (sock_client_dead_handler i c w) = remove1 client (client_list_at i w)"
    using s by (cases "disconnect (ss_funcs sock)")
      (simp_all add: dead talloc_free_client_ctx_fields)
  have r: "\<exists>w'. sock_client_read_done i c w = Some w'
      \<and> trace w' = trace w @ [Cb_read_recv (cc_fd cc), D_ERR ''client read failed with ret=%d'',
                              Free_client (sc_id client)] @ session_release cc
      \<and> disconnects (trace w') = disconnects (trace w)
      \<and> client_list_at i w' = remove1 client (client_list_at i w)"
    if "read_recv (ss_funcs sock) = Some g" and "\<not> fst (g (cc_fd cc))" for g
    using that assms see
    by (simp add: sock_client_read_done_def Let_def talloc_free_client_ctx_fields)
  have h: "\<exists>w'. sock_client_read_handler buf i c w = Some w'
      \<and> trace w' = trace w @ [Cb_read_send (cc_fd cc), Free_client (sc_id client)]
                    @ session_release cc
      \<and> disconnects (trace w') = disconnects (trace w)
      \<and> client_list_at i w' = remove1 client (client_list_at i w)"
    if "read_send (ss_funcs sock) = Some h" and "\<not> h (cc_fd cc) buf" for h
    using that assms se
    by (simp add: sock_client_read_handler_def Let_def talloc_free_client_ctx_fields)
  have t1: "trace (talloc_free_req (state_at i w) w) =
      trace w @ concat (map session_teardown (client_list_at i w))"
    by (simp add: talloc_free_req client_list_at_def)
  have t2: "set (session_teardown client) \<subseteq> set (concat (map session_teardown (client_list_at i w)))"
    using m by auto
  have t3: "disconnects (trace (talloc_free_req (state_at i w) w)) = disconnects (trace w)"
    by (simp add: t1)
  show ?thesis
    using d1 d2 d3 r h t1 t2 t3 disconnects_shutdown [of w] by blast
qed

lemma w_session_plain:
  "w_session plain_funcs =
     \<lparr>sockd = \<lparr>sd_funcs = Some all_funcs, sd_pid_ctx = Some ''/run/d.pid'',
               sd_socket_list =
                 [\<lparr>ss_sockpath = ''/tmp/t.sock'', ss_funcs = plain_funcs, ss_fd = 3,
                   ss_req = Some \<lparr>st_client_list =
                                   [\<lparr>sc_id = 0, sc_client_ctx = Some \<lparr>cc_fd = 4, cc_comm = True\<rparr>\<rparr>],
                                  st_accept = True\<rparr>\<rparr>]\<rparr>,
      run_req = TEVENT_REQ_IN_PROGRESS, pid_watch = 0, open_fds = {0, 1, 2, 3, 4},
      next_id = 1, trace = []\<rparr>"
  by (auto simp: w_session_def w_one_def w_setup_def start_all_def sock_daemon_add_unix_def
      sock_socket_init_def socket_setup_def env_ok_def accept_ok_def plain_funcs_def
      sock_socket_start_new_client_def sock_client_context_init_def sock_at_def state_at_def
      set_state_at_def set_client_list_def client_list_at_def socket_list_def
      set_socket_list_def emit_def Let_def)

lemma live_session_echo:
  "live_session 0 0 (w_session echo_funcs) =
     Some (\<lparr>ss_sockpath = ''/tmp/t.sock'', ss_funcs = echo_funcs, ss_fd = 3,
            ss_req = Some \<lparr>st_client_list =
                        [\<lparr>sc_id = 0, sc_client_ctx = Some \<lparr>cc_fd = 4, cc_comm = True\<rparr>\<rparr>],
                       st_accept = True\<rparr>\<rparr>,
           \<lparr>sc_id = 0, sc_client_ctx = Some \<lparr>cc_fd = 4, cc_comm = True\<rparr>\<rparr>,
           \<lparr>cc_fd = 4, cc_comm = True\<rparr>)"
  by (simp add: live_session_def client_list_at_def state_at_w_session sock_at_w_session)

lemma live_session_plain:
  "live_session 0 0 (w_session plain_funcs) =
     Some (\<lparr>ss_sockpath = ''/tmp/t.sock'', ss_funcs = plain_funcs, ss_fd = 3,
            ss_req = Some \<lparr>st_client_list =
                        [\<lparr>sc_id = 0, sc_client_ctx = Some \<lparr>cc_fd = 4, cc_comm = True\<rparr>\<rparr>],
                       st_accept = True\<rparr>\<rparr>,
           \<lparr>sc_id = 0, sc_client_ctx = Some \<lparr>cc_fd = 4, cc_comm = True\<rparr>\<rparr>,
           \<lparr>cc_fd = 4, cc_comm = True\<rparr>)"
  by (simp add: live_session_def client_list_at_def state_at_def sock_at_def socket_list_def
      w_session_plain)

theorem disconnect_on_dead_only_witness:
  "trace (sock_client_dead_handler 0 0 (w_session echo_funcs)) =
     [Cb_disconnect 4, Free_client 0, Free_comm 4, Sys_close 4]
   \<and> disconnects (trace (sock_client_dead_handler 0 0 (w_session echo_funcs))) = [4]
   \<and> client_list_at 0 (sock_client_dead_handler 0 0 (w_session echo_funcs)) = []
   \<and> (\<exists>w'. sock_client_read_done 0 0 (w_session echo_funcs) = Some w'
          \<and> trace w' = [Cb_read_recv 4, D_ERR ''client read failed with ret=%d'',
                         Free_client 0, Free_comm 4, Sys_close 4]
          \<and> disconnects (trace w') = [])
   \<and> (\<exists>w'. sock_client_read_handler [1, 2] 0 0 (w_session plain_funcs) = Some w'
          \<and> trace w' = [Cb_read_send 4, Free_client 0, Free_comm 4, Sys_close 4]
          \<and> disconnects (trace w') = [])
   \<and> disconnects (trace (sock_daemon_shutdown (w_session echo_funcs))) = []"
proof -
  note a = disconnect_on_dead_only [OF live_session_echo, of "[]"]
  note b = disconnect_on_dead_only [OF live_session_plain, of "[1, 2]"]
  have e: "trace (w_session echo_funcs) = []" "trace (w_session plain_funcs) = []"
    "client_list_at 0 (w_session echo_funcs) =
       [\<lparr>sc_id = 0, sc_client_ctx = Some \<lparr>cc_fd = 4, cc_comm = True\<rparr>\<rparr>]"
    by (simp_all add: client_list_at_def state_at_w_session)
       (simp_all add: w_session_echo w_session_plain)
  obtain d where d: "disconnect echo_funcs = Some d"
    by (simp add: echo_funcs_def)
  have f: "read_recv echo_funcs = Some (\<lambda>fd. (False, 5)) \<and> \<not> fst ((\<lambda>fd. (False, 5)) (4::int))"
    "read_send plain_funcs = Some (\<lambda>fd buf. False)
       \<and> \<not> (\<lambda>fd buf. False) (4::int) ([1, 2] :: 8 word list)"
    by (simp_all add: echo_funcs_def plain_funcs_def)
  have 1: "trace (sock_client_dead_handler 0 0 (w_session echo_funcs)) =
     [Cb_disconnect 4, Free_client 0, Free_comm 4, Sys_close 4]"
    using conjunct1 [OF a] by (simp add: e d session_release_def)
  have 2: "disconnects (trace (sock_client_dead_handler 0 0 (w_session echo_funcs))) = [4]"
    using conjunct1 [OF conjunct2 [OF a]] by (simp add: e d)
  have 3: "client_list_at 0 (sock_client_dead_handler 0 0 (w_session echo_funcs)) = []"
    using conjunct1 [OF conjunct2 [OF conjunct2 [OF a]]] by (simp add: e)
  have "\<exists>w'. sock_client_read_done 0 0 (w_session echo_funcs) = Some w'
          \<and> trace w' = trace (w_session echo_funcs)
               @ [Cb_read_recv 4, D_ERR ''client read failed with ret=%d'', Free_client 0]
               @ session_release \<lparr>cc_fd = 4, cc_comm = True\<rparr>
          \<and> disconnects (trace w') = disconnects (trace (w_session echo_funcs))
          \<and> client_list_at 0 w' =
              remove1 \<lparr>sc_id = 0, sc_client_ctx = Some \<lparr>cc_fd = 4, cc_comm = True\<rparr>\<rparr>
                (client_list_at 0 (w_session echo_funcs))"
    using a f(1) by simp
  then have 4: "\<exists>w'. sock_client_read_done 0 0 (w_session echo_funcs) = Some w'
          \<and> trace w' = [Cb_read_recv 4, D_ERR ''client read failed with ret=%d'',
                         Free_client 0, Free_comm 4, Sys_close 4]
          \<and> disconnects (trace w') = []"
    by (auto simp: e session_release_def)
  have "\<exists>w'. sock_client_read_handler [1, 2] 0 0 (w_session plain_funcs) = Some w'
          \<and> trace w' = trace (w_session plain_funcs) @ [Cb_read_send 4, Free_client 0]
               @ session_release \<lparr>cc_fd = 4, cc_comm = True\<rparr>
          \<and> disconnects (trace w') = disconnects (trace (w_session plain_funcs))
          \<and> client_list_at 0 w' =
              remove1 \<lparr>sc_id = 0, sc_client_ctx = Some \<lparr>cc_fd = 4, cc_comm = True\<rparr>\<rparr>
                (client_list_at 0 (w_session plain_funcs))"
    using b f(2) by simp
  then have 5: "\<exists>w'. sock_client_read_handler [1, 2] 0 0 (w_session plain_funcs) = Some w'
          \<and> trace w' = [Cb_read_send 4, Free_client 0, Free_comm 4, Sys_close 4]
          \<and> disconnects (trace w') = []"
    by (auto simp: e session_release_def)
  have 6: "disconnects (trace (sock_daemon_shutdown (w_session echo_funcs))) = []"
    using a by (simp add: e)
  from 1 2 3 4 5 6 show ?thesis
    by (intro conjI)
qed

end
